theory Spec2Isabelle
  imports Complex_Main "HOL-Library.Sublist"
begin

text \<open>
  The prompt-optimizer routes: the template renderer, the test-case generators,
  the completion with its fallback provider, the two judges, the optimizers and
  the two streaming handlers (\<^verbatim>\<open>braintrust-eval\<close> and \<^verbatim>\<open>langsmith-optimize\<close>),
  as functions over an explicit state, with the providers and \<^verbatim>\<open>JSON.parse\<close>
  as parameters.
\<close>

section \<open>JavaScript values\<close>

text \<open>
  The routes handle three kinds of data: strings, numbers and the values that
  \<^verbatim>\<open>JSON.parse\<close> returns. Strings are \<^typ>\<open>string\<close>, a character being a
  UTF-16 code unit below 256. A JavaScript number is a double: a finite value
  (held as the rational it is), \<^verbatim>\<open>NaN\<close> or an infinity. A parsed JSON text is
  a \<open>json\<close> value; \<^verbatim>\<open>undefined\<close> is \<open>None\<close> of \<open>json option\<close>.
\<close>

datatype jsnum = Fin rat | NaN | PosInf | NegInf

datatype json =
    JNull
  | JBool bool
  | JNum jsnum
  | JStr string
  | JArr "json list"
  | JObj "(string \<times> json) list"

type_synonym jsval = "json option"

text \<open>What a \<^verbatim>\<open>throw\<close> carries: an \<^verbatim>\<open>Error\<close> with its message, the
  \<^verbatim>\<open>TypeError\<close> of a property read on \<^verbatim>\<open>undefined\<close>/\<^verbatim>\<open>null\<close>, of a call of
  something that is no function or of the string conversion of a value that
  has none, the \<^verbatim>\<open>SyntaxError\<close> of \<^verbatim>\<open>JSON.parse\<close>, and the failure of a
  provider SDK call.\<close>

datatype js_error = Error string | TypeError | SyntaxError | ProviderFailure

text \<open>Truthiness, as \<^verbatim>\<open>if (v)\<close>, \<^verbatim>\<open>!v\<close> and \<^verbatim>\<open>a || b\<close> read it.\<close>

fun truthy :: "jsval \<Rightarrow> bool" where
  "truthy None = False"
| "truthy (Some JNull) = False"
| "truthy (Some (JBool b)) = b"
| "truthy (Some (JNum n)) = (n \<noteq> Fin 0 \<and> n \<noteq> NaN)"
| "truthy (Some (JStr s)) = (s \<noteq> [])"
| "truthy (Some (JArr xs)) = True"
| "truthy (Some (JObj kvs)) = True"

definition js_or :: "jsval \<Rightarrow> jsval \<Rightarrow> jsval" where
  "js_or a b = (if truthy a then a else b)"

text \<open>\<^verbatim>\<open>v.key\<close> for the keys the routes read (none of them lives on a prototype):
  a \<^verbatim>\<open>TypeError\<close> on \<^verbatim>\<open>undefined\<close> and \<^verbatim>\<open>null\<close>, the property of an object,
  \<^verbatim>\<open>undefined\<close> on every other value.\<close>

fun get_field :: "jsval \<Rightarrow> string \<Rightarrow> js_error + jsval" where
  "get_field None k = Inl TypeError"
| "get_field (Some JNull) k = Inl TypeError"
| "get_field (Some (JObj kvs)) k = Inr (map_of kvs k)"
| "get_field (Some v) k = Inr None"

text \<open>\<^verbatim>\<open>v?.key\<close>: \<^verbatim>\<open>undefined\<close> instead of the \<^verbatim>\<open>TypeError\<close>.\<close>

definition opt_field :: "jsval \<Rightarrow> string \<Rightarrow> jsval" where
  "opt_field v k = (case get_field v k of Inl e \<Rightarrow> None | Inr x \<Rightarrow> x)"

text \<open>\<^verbatim>\<open>v.length\<close>: defined on strings and arrays.\<close>

fun get_length :: "jsval \<Rightarrow> js_error + jsval" where
  "get_length None = Inl TypeError"
| "get_length (Some JNull) = Inl TypeError"
| "get_length (Some (JStr s)) = Inr (Some (JNum (Fin (of_nat (length s)))))"
| "get_length (Some (JArr xs)) = Inr (Some (JNum (Fin (of_nat (length xs)))))"
| "get_length (Some (JObj kvs)) = Inr (map_of kvs ''length'')"
| "get_length (Some v) = Inr None"

text \<open>
  The string conversion of a value, as a template literal \<^verbatim>\<open>`${v}`\<close> makes
  it, throws a \<^verbatim>\<open>TypeError\<close> for some values. An object is converted by its
  \<^verbatim>\<open>toString\<close> method; a parsed object with a key \<^verbatim>\<open>toString\<close> of its own has
  a value there that is no function, and \<^verbatim>\<open>valueOf\<close> gives no primitive value
  either. An array is converted by joining the conversions of its elements.
  Every other value, and \<^verbatim>\<open>undefined\<close>, has a string.
\<close>

fun stringable :: "json \<Rightarrow> bool" where
  "stringable (JArr xs) = list_all stringable xs"
| "stringable (JObj kvs) = (map_of kvs ''toString'' = None)"
| "stringable v = True"

definition converts :: "jsval \<Rightarrow> bool" where
  "converts v = (case v of None \<Rightarrow> True | Some j \<Rightarrow> stringable j)"

section \<open>Template Renderer\<close>

text \<open>
  \<^verbatim>\<open>prompt.replace(/\{\{input\}\}/g, input)\<close> in \<^verbatim>\<open>runPrompt\<close>,
  \<^verbatim>\<open>executePromptWithGemini\<close> and \<^verbatim>\<open>runClaudePrompt\<close>. The second argument is a
  string, so \<^verbatim>\<open>String.prototype.replace\<close> reads it as a replacement template:
  \<^verbatim>\<open>$$\<close> stands for one dollar sign, \<^verbatim>\<open>$&\<close> for the matched text, \<^verbatim>\<open>$`\<close> for the
  text before the match and \<^verbatim>\<open>$'\<close> for the text after it. The pattern has no
  capture group, so \<^verbatim>\<open>$1\<close>..\<^verbatim>\<open>$99\<close> and \<^verbatim>\<open>$<\<close> are copied as they are, like
  every other character.
\<close>

definition placeholder :: string where
  "placeholder = ''{{input}}''"

fun getSubstitution :: "string \<Rightarrow> string \<Rightarrow> string \<Rightarrow> string \<Rightarrow> string" where
  "getSubstitution matched pre post [] = []"
| "getSubstitution matched pre post [c] = [c]"
| "getSubstitution matched pre post (c # d # r) =
     (if c = CHR ''$'' \<and> d = CHR ''$'' then CHR ''$'' # getSubstitution matched pre post r
      else if c = CHR ''$'' \<and> d = CHR ''&'' then matched @ getSubstitution matched pre post r
      else if c = CHR ''$'' \<and> d = CHR 0x60 then pre @ getSubstitution matched pre post r
      else if c = CHR ''$'' \<and> d = CHR 0x27 then post @ getSubstitution matched pre post r
      else c # getSubstitution matched pre post (d # r))"

text \<open>The global match loop: \<open>pre\<close> is the part of the template already
  scanned, \<open>s\<close> the rest. Matches are taken leftmost first and do not overlap.\<close>

function replaceFrom :: "string \<Rightarrow> string \<Rightarrow> string \<Rightarrow> string" where
  "replaceFrom pre s replacement =
     (if s = [] then []
      else if prefix placeholder s
      then getSubstitution placeholder pre (drop (length placeholder) s) replacement
           @ replaceFrom (pre @ placeholder) (drop (length placeholder) s) replacement
      else hd s # replaceFrom (pre @ [hd s]) (tl s) replacement)"
  by pat_completeness auto
termination
  by (relation "measure (\<lambda>(pre, s, replacement). length s)")
     (auto simp: placeholder_def prefix_def)

definition render :: "string \<Rightarrow> string \<Rightarrow> string" where
  "render template input = replaceFrom [] template input"

text \<open>The renderer of the specification: every occurrence of the placeholder
  becomes the input, character for character.\<close>

function literalFrom :: "string \<Rightarrow> string \<Rightarrow> string" where
  "literalFrom s input =
     (if s = [] then []
      else if prefix placeholder s
      then input @ literalFrom (drop (length placeholder) s) input
      else hd s # literalFrom (tl s) input)"
  by pat_completeness auto
termination
  by (relation "measure (\<lambda>(s, input). length s)")
     (auto simp: placeholder_def prefix_def)

function count_placeholder :: "string \<Rightarrow> nat" where
  "count_placeholder s =
     (if s = [] then 0
      else if prefix placeholder s
      then Suc (count_placeholder (drop (length placeholder) s))
      else count_placeholder (tl s))"
  by pat_completeness auto
termination
  by (relation "measure length") (auto simp: placeholder_def prefix_def)

section \<open>Numbers as text\<close>

text \<open>\<^verbatim>\<open>${n}\<close> for a non-negative integer.\<close>

definition digit_char :: "nat \<Rightarrow> char" where
  "digit_char d = char_of (48 + d)"

function show_nat :: "nat \<Rightarrow> string" where
  "show_nat n = (if n < 10 then [digit_char n] else show_nat (n div 10) @ [digit_char (n mod 10)])"
  by pat_completeness auto
termination
  by (relation "measure id") auto

text \<open>
  The double nearest to a rational, ties to the even significand (IEEE 754
  binary64): 53 bits of significand, exponents of the last bit from -1074 to
  971, an infinity from \<open>2^1024\<close> on.
\<close>

text \<open>The number of binary digits of a positive integer, and a power of two.\<close>

function bit_length :: "int \<Rightarrow> int" where
  "bit_length n = (if n \<le> 0 then 0 else bit_length (n div 2) + 1)"
  by pat_completeness auto
termination
  by (relation "measure nat") auto

definition pow2 :: "int \<Rightarrow> rat" where
  "pow2 e = (if 0 \<le> e then 2 ^ nat e else 1 / 2 ^ nat (- e))"

text \<open>The floor of the binary logarithm of a positive \<open>a\<close>.\<close>

definition floor_log2 :: "rat \<Rightarrow> int" where
  "floor_log2 a =
     (case quotient_of a of (p, q) \<Rightarrow>
        let k = bit_length p - bit_length q
        in if pow2 k \<le> a then k else k - 1)"

definition round_half_even :: "rat \<Rightarrow> int" where
  "round_half_even x =
     (let f = \<lfloor>x\<rfloor>; r = x - of_int f
      in if r < 1 / 2 then f else if 1 / 2 < r then f + 1 else if even f then f else f + 1)"

definition to_double :: "rat \<Rightarrow> jsnum" where
  "to_double q =
     (if q = 0 then Fin 0
      else let a = \<bar>q\<bar>;
               e = max (floor_log2 a - 52) (- 1074);
               v = of_int (round_half_even (a / pow2 e)) * pow2 e
           in if pow2 1024 \<le> v then (if 0 < q then PosInf else NegInf)
              else Fin (if 0 < q then v else - v))"

text \<open>\<^verbatim>\<open>a / b\<close>, \<^verbatim>\<open>x * c\<close> and \<^verbatim>\<open>x + c\<close> on doubles: the exact result, rounded;
  a zero divisor gives \<^verbatim>\<open>NaN\<close> for \<^verbatim>\<open>0 / 0\<close> and an infinity otherwise. The
  divisors of the routes are lengths and the factors are 100.\<close>

definition js_div :: "rat \<Rightarrow> rat \<Rightarrow> jsnum" where
  "js_div a b =
     (if b = 0 then (if a = 0 then NaN else if 0 < a then PosInf else NegInf)
      else to_double (a / b))"

fun js_quot :: "jsnum \<Rightarrow> rat \<Rightarrow> jsnum" where
  "js_quot (Fin a) b = js_div a b"
| "js_quot NaN b = NaN"
| "js_quot PosInf b = (if b < 0 then NegInf else PosInf)"
| "js_quot NegInf b = (if b < 0 then PosInf else NegInf)"

fun js_times :: "jsnum \<Rightarrow> rat \<Rightarrow> jsnum" where
  "js_times (Fin q) c = to_double (q * c)"
| "js_times NaN c = NaN"
| "js_times PosInf c = (if c = 0 then NaN else if 0 < c then PosInf else NegInf)"
| "js_times NegInf c = (if c = 0 then NaN else if 0 < c then NegInf else PosInf)"

fun js_plus :: "jsnum \<Rightarrow> rat \<Rightarrow> jsnum" where
  "js_plus (Fin q) c = to_double (q + c)"
| "js_plus x c = x"

text \<open>\<^verbatim>\<open>x.toFixed(d)\<close> for \<open>d\<close> = 0 or 1 and a finite \<open>x\<close> below \<open>10^21\<close>: the
  nearest multiple of \<open>10^-d\<close>, the larger one on a tie; \<^verbatim>\<open>NaN\<close> and the
  infinities give their names.\<close>

definition fixed_digits :: "nat \<Rightarrow> rat \<Rightarrow> string" where
  "fixed_digits d q =
     (let n = nat \<lfloor>q * 10 ^ d + 1 / 2\<rfloor>
      in if d = 0 then show_nat n
         else show_nat (n div 10) @ ''.'' @ show_nat (n mod 10))"

fun toFixed :: "nat \<Rightarrow> jsnum \<Rightarrow> string" where
  "toFixed d NaN = ''NaN''"
| "toFixed d PosInf = ''Infinity''"
| "toFixed d NegInf = ''-Infinity''"
| "toFixed d (Fin q) = (if q < 0 then ''-'' @ fixed_digits d (- q) else fixed_digits d q)"

section \<open>Text matching\<close>

text \<open>\<^verbatim>\<open>text.match(/\[[\s\S]*\]/)\<close> and \<^verbatim>\<open>text.match(/\{[\s\S]*\}/)\<close>: the star is
  greedy, so the match runs from the first opening character to the last
  closing character after it; there is no match when no closing character
  follows the first opening one.\<close>

definition match_span :: "char \<Rightarrow> char \<Rightarrow> string \<Rightarrow> string option" where
  "match_span l r s =
     (case dropWhile (\<lambda>c. c \<noteq> l) s of
        [] \<Rightarrow> None
      | c # t \<Rightarrow>
          (case rev (dropWhile (\<lambda>c. c \<noteq> r) (rev t)) of
             [] \<Rightarrow> None
           | u \<Rightarrow> Some (c # u)))"

definition match_array :: "string \<Rightarrow> string option" where
  "match_array s = match_span CHR ''['' CHR '']'' s"

definition match_object :: "string \<Rightarrow> string option" where
  "match_object s = match_span CHR ''{'' CHR ''}'' s"

text \<open>\<^verbatim>\<open>text.trim()\<close>: the white space and the line terminators among the
  code units below 256 are the tab, the line feed, the vertical tab, the form
  feed, the carriage return, the space and the no-break space.\<close>

definition is_space :: "char \<Rightarrow> bool" where
  "is_space c =
     (c \<in> set [CHR '' '', CHR 0x09, CHR 0x0A, CHR 0x0B, CHR 0x0C, CHR 0x0D, CHR 0xA0])"

definition trim :: "string \<Rightarrow> string" where
  "trim s = rev (dropWhile is_space (rev (dropWhile is_space s)))"

text \<open>\<^verbatim>\<open>response.match(/[01]/g)\<close> and its last element, \<^verbatim>\<open>"0"\<close> when there
  is no match.\<close>

definition lastDigit :: "string \<Rightarrow> char" where
  "lastDigit response =
     (case filter (\<lambda>c. c = CHR ''0'' \<or> c = CHR ''1'') response of
        [] \<Rightarrow> CHR ''0''
      | ds \<Rightarrow> last ds)"

section \<open>Data model\<close>

text \<open>\<^verbatim>\<open>TestResult\<close> of the evaluation route. \<^verbatim>\<open>expected\<close> and \<^verbatim>\<open>metadata\<close>
  are copied from the parsed test case as they are.\<close>

record scores =
  factuality :: rat
  battle :: rat
  jsonValidity :: rat
  tone :: rat
  overall :: rat

record eval_result =
  e_input :: string
  e_output :: string
  e_expected :: jsval
  e_scores :: scores
  e_metadata :: jsval

text \<open>\<^verbatim>\<open>TestResult\<close> of the optimization route: \<^verbatim>\<open>score\<close>,
  \<^verbatim>\<open>failureReason\<close> and \<^verbatim>\<open>rubricResults\<close> are the properties of the judge's
  parsed answer.\<close>

record test_result =
  t_input :: string
  t_output :: string
  score :: jsval
  failureReason :: jsval
  rubricResults :: jsval

text \<open>One element of \<^verbatim>\<open>failureAnalysis\<close> in \<^verbatim>\<open>generateOptimizedPrompt\<close>.\<close>

record failure =
  f_input :: string
  f_output :: string
  f_failureReason :: jsval
  failedCriteria :: "json list"

text \<open>
  The prompts sent to the providers. Each constructor is one prompt template
  of the source, with the values the template interpolates; \<open>Execute\<close> carries
  the rendered user prompt itself.
\<close>

datatype request =
    Generate_cases string
  | Generate_rubric_cases string string "string list"
  | Execute string
  | Tone_question jsval string
  | Factuality_recommendation string jsval
  | Factuality_creative string jsval
  | Factuality_factual string jsval
  | Battle_recommendation jsval string
  | Battle_compare jsval string jsval
  | Improve string "eval_result list"
  | Judge string string string "json list"
  | Optimize string string "string list" "failure list"

datatype provider = Gemini | Groq | Anthropic

text \<open>What a provider call gives: it throws, it returns without text (no
  text block, no message content), or it returns text.\<close>

datatype reply = Throws | No_text | Text string

text \<open>
  The collaborators of one invocation. The providers are functions of the
  request and of a state \<open>'w\<close> of the outside world, which they may change, so
  that a provider may answer the same request differently each time.
  \<^verbatim>\<open>JSON.parse\<close> is the runtime's parser: \<open>None\<close> is its \<^verbatim>\<open>SyntaxError\<close>.
\<close>

record 'w env =
  gemini :: "request \<Rightarrow> 'w \<Rightarrow> reply \<times> 'w"
  groq :: "request \<Rightarrow> 'w \<Rightarrow> reply \<times> 'w"
  anthropic :: "request \<Rightarrow> 'w \<Rightarrow> reply \<times> 'w"
  JSON_parse :: "string \<Rightarrow> json option"
  GEMINI_API_KEY :: bool
  LANGSMITH_API_KEY :: bool

text \<open>Progress events. The text of \<^verbatim>\<open>details\<close> is kept in pieces: literal
  text, the string conversion of a run-time value, the message of an error.
  Time stamps are left out. \<open>Failed\<close> is the status \<^verbatim>\<open>"error"\<close>.\<close>

datatype status = Running | Completed | Failed

datatype piece = S string | V jsval | M js_error

record log =
  phase :: string
  status :: status
  details :: "piece list option"

text \<open>The state of one invocation: the outside world, the provider calls made
  so far, each with its outcome, and the \<^verbatim>\<open>logs\<close> array. \<^verbatim>\<open>sendLog\<close> writes
  each log to the stream when it pushes it, so the log events of the stream
  are \<open>logs\<close>, in order.\<close>

type_synonym provider_call = "provider \<times> request \<times> reply"

record 'w state =
  world :: 'w
  calls :: "provider_call list"
  logs :: "log list"

type_synonym ('a, 'w) js = "'w state \<Rightarrow> (js_error + 'a) \<times> 'w state"

definition return :: "'a \<Rightarrow> ('a, 'w) js" where
  "return x s = (Inr x, s)"

definition throw :: "js_error \<Rightarrow> ('a, 'w) js" where
  "throw e s = (Inl e, s)"

definition lift :: "js_error + 'a \<Rightarrow> ('a, 'w) js" where
  "lift r s = (r, s)"

definition bindM :: "('a, 'w) js \<Rightarrow> ('a \<Rightarrow> ('b, 'w) js) \<Rightarrow> ('b, 'w) js" where
  "bindM m f s = (case m s of (Inl e, s') \<Rightarrow> (Inl e, s') | (Inr x, s') \<Rightarrow> f x s')"

definition try_catch :: "('a, 'w) js \<Rightarrow> (js_error \<Rightarrow> ('a, 'w) js) \<Rightarrow> ('a, 'w) js" where
  "try_catch m h s = (case m s of (Inl e, s') \<Rightarrow> h e s' | (Inr x, s') \<Rightarrow> (Inr x, s'))"

text \<open>The text of \<^verbatim>\<open>details\<close> is a template literal, evaluated before
  \<^verbatim>\<open>sendLog\<close> is called: a value in it that has no string throws, and
  nothing is logged.\<close>

fun piece_converts :: "piece \<Rightarrow> bool" where
  "piece_converts (V v) = converts v"
| "piece_converts p = True"

definition text_converts :: "piece list option \<Rightarrow> bool" where
  "text_converts d = (case d of None \<Rightarrow> True | Some ps \<Rightarrow> list_all piece_converts ps)"

definition sendLog :: "string \<Rightarrow> status \<Rightarrow> piece list option \<Rightarrow> (unit, 'w) js" where
  "sendLog p st d s =
     (if text_converts d
      then (Inr (), s\<lparr>logs := logs s @ [\<lparr>phase = p, status = st, details = d\<rparr>]\<rparr>)
      else (Inl TypeError, s))"

text \<open>A prompt is a template literal as well: the values it interpolates are
  converted before the request exists.\<close>

definition interpolate :: "jsval list \<Rightarrow> (unit, 'w) js" where
  "interpolate vs s = (if list_all converts vs then (Inr (), s) else (Inl TypeError, s))"

definition get_logs :: "(log list, 'w) js" where
  "get_logs s = (Inr (logs s), s)"

text \<open>One provider call: the call is recorded, the world moves on, and a
  failure of the SDK call is a \<^verbatim>\<open>throw\<close>. The result is the text, if any.\<close>

definition call :: "provider \<Rightarrow> (request \<Rightarrow> 'w \<Rightarrow> reply \<times> 'w) \<Rightarrow> request \<Rightarrow> (string option, 'w) js" where
  "call p f req s =
     (case f req (world s) of (r, w') \<Rightarrow>
        (case r of Throws \<Rightarrow> Inl ProviderFailure | No_text \<Rightarrow> Inr None | Text t \<Rightarrow> Inr (Some t),
         s\<lparr>world := w', calls := calls s @ [(p, req, r)]\<rparr>))"

definition or_else :: "string option \<Rightarrow> string \<Rightarrow> string" where
  "or_else r d = (case r of None \<Rightarrow> d | Some t \<Rightarrow> t)"

definition parse :: "'w env \<Rightarrow> string \<Rightarrow> (json, 'w) js" where
  "parse env t = (case JSON_parse env t of None \<Rightarrow> throw SyntaxError | Some v \<Rightarrow> return v)"

text \<open>The records written to the stream. The \<^verbatim>\<open>complete\<close> event carries
  the value handed to \<^verbatim>\<open>JSON.stringify\<close>.\<close>

record summary =
  total_tests :: nat
  passed_tests :: nat
  failed_tests :: nat
  success_rate :: string
  average_score :: string

record evaluation =
  ev_prompt :: string
  ev_summary :: summary
  ev_results :: "eval_result list"
  improvedPrompts :: json
  syntheticDataset :: json
  ev_logs :: "log list"

record metrics =
  m_originalPassRate :: string
  m_totalTests :: nat
  m_failures :: nat

record optimize_evaluation =
  o_originalPrompt :: string
  o_optimizedPrompt :: jsval
  o_promptName :: string
  o_goal :: string
  o_rubric :: "string list option"
  o_originalResults :: "test_result list"
  o_metrics :: metrics
  o_reasoning :: jsval
  o_changes :: jsval
  o_logs :: "log list"

datatype event =
    Log_event log
  | Complete_evaluation evaluation
  | Complete_optimization optimize_evaluation
  | Error_event string "piece list option" "log list option"

fun is_complete :: "event \<Rightarrow> bool" where
  "is_complete (Complete_evaluation e) = True"
| "is_complete (Complete_optimization e) = True"
| "is_complete ev = False"

fun is_error :: "event \<Rightarrow> bool" where
  "is_error (Error_event m d l) = True"
| "is_error ev = False"

definition initial :: "'w \<Rightarrow> 'w state" where
  "initial w = \<lparr>world = w, calls = [], logs = []\<rparr>"

text \<open>The stream of one invocation: the log events, then the final record.
  The handler's \<^verbatim>\<open>catch\<close> turns every exception into an \<^verbatim>\<open>error\<close> record.\<close>

definition stream_of :: "(js_error + event) \<times> 'w state \<Rightarrow> event list" where
  "stream_of r =
     (case r of
        (Inr ev, s) \<Rightarrow> map Log_event (logs s) @ [ev]
      | (Inl e, s) \<Rightarrow> map Log_event (logs s))"

text \<open>\<^verbatim>\<open>testCase.input.substring(0, 50)\<close>, evaluated for the first log of a
  test: a \<^verbatim>\<open>TypeError\<close> unless the test case has a string \<^verbatim>\<open>input\<close>.\<close>

definition input_of :: "json \<Rightarrow> js_error + string" where
  "input_of testCase =
     (case get_field (Some testCase) ''input'' of
        Inl e \<Rightarrow> Inl e
      | Inr (Some (JStr i)) \<Rightarrow> Inr i
      | Inr v \<Rightarrow> Inl TypeError)"

section \<open>The evaluation route (braintrust-eval)\<close>

subsection \<open>Test-Case Generator\<close>

definition generateSyntheticDataset :: "'w env \<Rightarrow> string \<Rightarrow> (json, 'w) js" where
  "generateSyntheticDataset env prompt =
     try_catch
       (bindM (call Gemini (gemini env) (Generate_cases prompt)) (\<lambda>r.
          case match_array (or_else r []) of
            None \<Rightarrow> throw (Error ''Failed to parse Gemini response as JSON'')
          | Some m \<Rightarrow> parse env m))
       (\<lambda>geminiError.
          bindM (call Groq (groq env) (Generate_cases prompt)) (\<lambda>r.
            case match_array (or_else r []) of
              None \<Rightarrow> throw (Error ''Failed to generate synthetic dataset with both Gemini and Groq'')
            | Some m \<Rightarrow> parse env m))"

subsection \<open>Completion\<close>

definition runPrompt :: "'w env \<Rightarrow> string \<Rightarrow> string \<Rightarrow> (string, 'w) js" where
  "runPrompt env prompt inp =
     bindM (call Anthropic (anthropic env) (Execute (render prompt inp))) (\<lambda>r.
       return (or_else r []))"

subsection \<open>Judge\<close>

text \<open>Each scorer builds its prompt before its own \<^verbatim>\<open>try\<close>; only the provider
  call and the reading of the answer are inside it.\<close>

definition scoreTone :: "'w env \<Rightarrow> string \<Rightarrow> jsval \<Rightarrow> (rat, 'w) js" where
  "scoreTone env out expectedTone =
     (if \<not> truthy expectedTone then return 1
      else
        bindM (interpolate [expectedTone]) (\<lambda>_.
        try_catch
          (bindM (call Anthropic (anthropic env) (Tone_question expectedTone out)) (\<lambda>r.
             let response = (case r of Some t \<Rightarrow> trim t | None \<Rightarrow> ''0'')
             in return (if response = ''1'' then 1 else 0)))
          (\<lambda>error. return 0)))"

definition promptType_of :: "jsval \<Rightarrow> jsval" where
  "promptType_of metadata =
     js_or (js_or (opt_field metadata ''promptType'') (opt_field metadata ''category''))
       (Some (JStr ''factual''))"

definition scoreFactuality :: "'w env \<Rightarrow> string \<Rightarrow> jsval \<Rightarrow> jsval \<Rightarrow> (rat, 'w) js" where
  "scoreFactuality env out expected metadata =
     (let promptType = promptType_of metadata;
          factualityPrompt =
            (if promptType = Some (JStr ''recommendation'') then Factuality_recommendation out expected
             else if promptType = Some (JStr ''creative'') then Factuality_creative out expected
             else Factuality_factual out expected)
      in
        bindM (interpolate [expected]) (\<lambda>_.
        try_catch
          (bindM (call Anthropic (anthropic env) factualityPrompt) (\<lambda>r.
             let response = (case r of Some t \<Rightarrow> trim t | None \<Rightarrow> ''0'')
             in return (if lastDigit response = CHR ''1'' then 1 else 0)))
          (\<lambda>error. return 0)))"

definition scoreBattle :: "'w env \<Rightarrow> jsval \<Rightarrow> string \<Rightarrow> jsval \<Rightarrow> jsval \<Rightarrow> (rat, 'w) js" where
  "scoreBattle env inp out expected metadata =
     (let promptType = promptType_of metadata;
          battlePrompt =
            (if promptType = Some (JStr ''recommendation'') then Battle_recommendation inp out
             else Battle_compare inp out expected);
          interpolated =
            (if promptType = Some (JStr ''recommendation'') then [inp] else [inp, expected])
      in
        bindM (interpolate interpolated) (\<lambda>_.
        try_catch
          (bindM (call Anthropic (anthropic env) battlePrompt) (\<lambda>r.
             let response = (case r of Some t \<Rightarrow> trim t | None \<Rightarrow> ''0'')
             in return (if lastDigit response = CHR ''1'' then 1 else 0)))
          (\<lambda>error. return 0)))"

text \<open>One statement of the \<^verbatim>\<open>try\<close> block of \<^verbatim>\<open>evaluateTestCase\<close>: when it
  throws, the \<^verbatim>\<open>catch\<close> logs the error and the function returns the scores
  assigned so far.\<close>

definition step :: "scores \<Rightarrow> ('a, 'w) js \<Rightarrow> ('a \<Rightarrow> (scores, 'w) js) \<Rightarrow> (scores, 'w) js" where
  "step current m f s =
     (case m s of (Inl e, s') \<Rightarrow> (Inr current, s') | (Inr x, s') \<Rightarrow> f x s')"

definition no_scores :: scores where
  "no_scores = \<lparr>factuality = 0, battle = 0, jsonValidity = 0, tone = 0, overall = 0\<rparr>"

definition evaluateTestCase :: "'w env \<Rightarrow> json \<Rightarrow> string \<Rightarrow> (scores, 'w) js" where
  "evaluateTestCase env testCase out =
     step no_scores (lift (get_field (Some testCase) ''expected'')) (\<lambda>expected.
     let metadata = opt_field (Some testCase) ''metadata'';
         inp = opt_field (Some testCase) ''input''
     in
     step no_scores (scoreFactuality env out expected metadata) (\<lambda>f.
     let s1 = no_scores\<lparr>factuality := f\<rparr> in
     step s1 (scoreBattle env inp out expected metadata) (\<lambda>b.
     let s2 = s1\<lparr>battle := b\<rparr>;
         s3 = s2\<lparr>jsonValidity :=
                (if truthy (opt_field metadata ''expectsJSON'')
                 then (case JSON_parse env out of Some v \<Rightarrow> 1 | None \<Rightarrow> 0)
                 else 1)\<rparr>
     in
     step s3 (if truthy (opt_field metadata ''expectedTone'')
              then scoreTone env out (opt_field metadata ''expectedTone'')
              else return 1) (\<lambda>t.
     let s4 = s3\<lparr>tone := t\<rparr>
     in return (s4\<lparr>overall := (factuality s4 + battle s4 + jsonValidity s4 + tone s4) / 4\<rparr>)))))"

subsection \<open>Optimizer, one-shot variant\<close>

text \<open>The failure analysis, with \<^verbatim>\<open>${test.expected}\<close> for each failed test, is
  built before the \<^verbatim>\<open>try\<close>.\<close>

definition getImprovedPrompts :: "'w env \<Rightarrow> string \<Rightarrow> eval_result list \<Rightarrow> (json, 'w) js" where
  "getImprovedPrompts env originalPrompt failedTests =
     bindM (interpolate (map e_expected failedTests)) (\<lambda>_.
     try_catch
       (bindM (call Anthropic (anthropic env) (Improve originalPrompt failedTests)) (\<lambda>r.
          case match_array (or_else r []) of
            Some m \<Rightarrow> parse env m
          | None \<Rightarrow> return (JArr [])))
       (\<lambda>error. return (JArr [])))"

subsection \<open>Evaluation Runner and Summary\<close>

fun run_evaluations ::
  "'w env \<Rightarrow> string \<Rightarrow> nat \<Rightarrow> nat \<Rightarrow> json list \<Rightarrow> eval_result list \<Rightarrow> (eval_result list, 'w) js" where
  "run_evaluations env prompt n index [] results = return results"
| "run_evaluations env prompt n index (testCase # rest) results =
     bindM (lift (input_of testCase)) (\<lambda>inp.
     bindM (sendLog (''Evaluating test '' @ show_nat (index + 1) @ ''/'' @ show_nat n) Running
              (Some [S ''Input: '', S (take 50 inp), S ''...''])) (\<lambda>_.
     bindM (runPrompt env prompt inp) (\<lambda>out.
     bindM (evaluateTestCase env testCase out) (\<lambda>sc.
     bindM (sendLog (''Test '' @ show_nat (index + 1) @ '' completed'') Completed
              (Some [S ''Score: '', S (toFixed 0 (js_times (Fin (overall sc)) 100)), S ''%''])) (\<lambda>_.
     run_evaluations env prompt n (index + 1) rest
       (results @ [\<lparr>e_input = inp, e_output = out,
                     e_expected = opt_field (Some testCase) ''expected'',
                     e_scores = sc,
                     e_metadata = opt_field (Some testCase) ''metadata''\<rparr>]))))))"

text \<open>\<^verbatim>\<open>results.filter((r) => r.scores.overall < 0.8)\<close>. The scores are
  quarters, which doubles hold exactly, so the comparison with the double
  \<^verbatim>\<open>0.8\<close> is the comparison with four fifths.\<close>

definition failing :: "eval_result list \<Rightarrow> eval_result list" where
  "failing results = filter (\<lambda>r. overall (e_scores r) < 4 / 5) results"

definition passing :: "eval_result list \<Rightarrow> eval_result list" where
  "passing results = filter (\<lambda>r. overall (e_scores r) \<ge> 4 / 5) results"

definition summarize :: "eval_result list \<Rightarrow> summary" where
  "summarize results =
     (let totalTests = length results;
          passedTests = length (passing results);
          avgScore =
            js_quot (foldl (\<lambda>sum r. js_plus sum (overall (e_scores r))) (Fin 0) results)
              (of_nat totalTests)
      in \<lparr>total_tests = totalTests,
          passed_tests = passedTests,
          failed_tests = length (failing results),
          success_rate = toFixed 1 (js_times (js_div (of_nat passedTests) (of_nat totalTests)) 100),
          average_score = toFixed 1 (js_times avgScore 100)\<rparr>)"

text \<open>\<^verbatim>\<open>improvedPrompts.slice(0, 3)\<close>: arrays and strings have \<^verbatim>\<open>slice\<close>.\<close>

fun slice3 :: "json \<Rightarrow> js_error + json" where
  "slice3 (JArr xs) = Inr (JArr (take 3 xs))"
| "slice3 (JStr t) = Inr (JStr (take 3 t))"
| "slice3 v = Inl TypeError"

text \<open>\<^verbatim>\<open>testCases.entries()\<close>: only an array can be iterated.\<close>

fun entries :: "json \<Rightarrow> js_error + json list" where
  "entries (JArr xs) = Inr xs"
| "entries v = Inl TypeError"

text \<open>Step 1: the synthetic dataset.\<close>

definition generate_step :: "'w env \<Rightarrow> string \<Rightarrow> (json, 'w) js" where
  "generate_step env prompt =
     bindM (sendLog ''Analyzing prompt'' Running None) (\<lambda>_.
     bindM (sendLog ''Generating synthetic dataset with Gemini Flash 2.5'' Running None) (\<lambda>_.
     bindM (generateSyntheticDataset env prompt) (\<lambda>testCases.
     bindM (lift (get_length (Some testCases))) (\<lambda>n.
     bindM (sendLog ''Dataset generation complete'' Completed
              (Some [S ''Generated '', V n, S '' test cases''])) (\<lambda>_.
     return testCases)))))"

text \<open>Step 2: the evaluations.\<close>

definition evaluate_step :: "'w env \<Rightarrow> string \<Rightarrow> json \<Rightarrow> (eval_result list, 'w) js" where
  "evaluate_step env prompt testCases =
     bindM (sendLog ''Running evaluations'' Running
              (Some [S ''Testing prompt against dataset''])) (\<lambda>_.
     bindM (lift (entries testCases)) (\<lambda>tcs.
     bindM (run_evaluations env prompt (length tcs) 0 tcs []) (\<lambda>results.
     bindM (sendLog ''All tests completed'' Completed
              (Some [S (show_nat (length results)), S '' tests executed''])) (\<lambda>_.
     return results))))"

text \<open>Step 4: improved prompts, if there are failures.\<close>

definition improve_step :: "'w env \<Rightarrow> string \<Rightarrow> eval_result list \<Rightarrow> (json, 'w) js" where
  "improve_step env prompt failedTests =
     (if failedTests \<noteq> [] then
        bindM (sendLog ''Analyzing failures'' Running
                 (Some [S (show_nat (length failedTests)),
                        S '' test(s) failed - generating improvements''])) (\<lambda>_.
        bindM (getImprovedPrompts env prompt failedTests) (\<lambda>improved.
        bindM (lift (get_length (Some improved))) (\<lambda>k.
        bindM (sendLog ''Improvement suggestions ready'' Completed
                 (Some [S ''Generated '', V k, S '' improved prompt versions''])) (\<lambda>_.
        return improved))))
      else
        bindM (sendLog ''All tests passed'' Completed
                 (Some [S ''No improvements needed - prompt performed well!''])) (\<lambda>_.
        return (JArr [])))"

definition evaluation_steps :: "'w env \<Rightarrow> string \<Rightarrow> (event, 'w) js" where
  "evaluation_steps env prompt =
     bindM (generate_step env prompt) (\<lambda>testCases.
     bindM (evaluate_step env prompt testCases) (\<lambda>results.
     bindM (improve_step env prompt (failing results)) (\<lambda>improved.
     let stats = summarize results in
     bindM (sendLog ''Evaluation complete'' Completed
              (Some [S ''Success rate: '', S (success_rate stats), S ''%''])) (\<lambda>_.
     bindM (lift (slice3 improved)) (\<lambda>firstThree.
     bindM get_logs (\<lambda>l.
     return (Complete_evaluation
       \<lparr>ev_prompt = prompt, ev_summary = stats, ev_results = results,
        improvedPrompts = firstThree, syntheticDataset = testCases, ev_logs = l\<rparr>)))))))"

text \<open>The handler. An empty prompt stands for every prompt that fails
  \<^verbatim>\<open>!prompt || typeof prompt !== "string"\<close>.\<close>

definition evaluation_handler :: "'w env \<Rightarrow> string \<Rightarrow> (event, 'w) js" where
  "evaluation_handler env prompt =
     try_catch
       (if prompt = [] then
          bindM (sendLog ''Error'' Failed (Some [S ''Prompt string is required''])) (\<lambda>_.
          return (Error_event ''Prompt string is required'' None None))
        else if \<not> GEMINI_API_KEY env then
          bindM (sendLog ''Error'' Failed (Some [S ''GEMINI_API_KEY not configured''])) (\<lambda>_.
          return (Error_event ''GEMINI_API_KEY not configured'' None None))
        else evaluation_steps env prompt)
       (\<lambda>error.
          bindM (sendLog ''Error occurred'' Failed (Some [M error])) (\<lambda>_.
          bindM get_logs (\<lambda>l.
          return (Error_event ''Failed to run Braintrust evaluation'' (Some [M error]) (Some l)))))"

definition POST_evaluation :: "'w env \<Rightarrow> string \<Rightarrow> 'w \<Rightarrow> event list" where
  "POST_evaluation env prompt w = stream_of (evaluation_handler env prompt (initial w))"

section \<open>The optimization route (langsmith-optimize)\<close>

subsection \<open>Test-Case Generator\<close>

text \<open>The generation prompt is built before the \<^verbatim>\<open>try\<close>: \<^verbatim>\<open>rubric.map\<close> is a
  \<^verbatim>\<open>TypeError\<close> when the request has no rubric.\<close>

definition generateSyntheticDataset_rubric ::
  "'w env \<Rightarrow> string \<Rightarrow> string \<Rightarrow> string list option \<Rightarrow> (json, 'w) js" where
  "generateSyntheticDataset_rubric env prompt goal rubric =
     (case rubric of
        None \<Rightarrow> throw TypeError
      | Some criteria \<Rightarrow>
          try_catch
            (bindM (call Gemini (gemini env) (Generate_rubric_cases prompt goal criteria)) (\<lambda>r.
               case match_array (or_else r []) of
                 None \<Rightarrow> throw (Error ''Failed to parse Gemini response'')
               | Some m \<Rightarrow> parse env m))
            (\<lambda>geminiError.
               bindM (call Groq (groq env) (Generate_rubric_cases prompt goal criteria)) (\<lambda>r.
                 case match_array (or_else r []) of
                   None \<Rightarrow> throw (Error ''Failed to generate test cases with both Gemini and Groq'')
                 | Some m \<Rightarrow> parse env m)))"

subsection \<open>Completion, with the fallback provider\<close>

definition executePromptWithGemini :: "'w env \<Rightarrow> string \<Rightarrow> string \<Rightarrow> (string, 'w) js" where
  "executePromptWithGemini env prompt inp =
     (let formattedPrompt = render prompt inp
      in try_catch
           (bindM (call Gemini (gemini env) (Execute formattedPrompt)) (\<lambda>r.
              return (or_else r [])))
           (\<lambda>geminiError.
              bindM (call Groq (groq env) (Execute formattedPrompt)) (\<lambda>r.
                return (or_else r []))))"

subsection \<open>Judge, rubric variant\<close>

text \<open>The judge prompt lists the criteria, \<^verbatim>\<open>rubric.map((r, i) => `${i + 1}. ${r}`)\<close>,
  before the call.\<close>

definition parse_failure_verdict :: "json list \<Rightarrow> json" where
  "parse_failure_verdict criteria =
     JObj [(''score'', JNum (Fin 0)),
           (''failureReason'', JStr ''Failed to parse judge response''),
           (''rubricResults'',
              JArr (map (\<lambda>r. JObj [(''criterion'', r), (''passed'', JBool False)]) criteria))]"

definition judgeWithClaude :: "'w env \<Rightarrow> string \<Rightarrow> string \<Rightarrow> jsval \<Rightarrow> string \<Rightarrow> (json, 'w) js" where
  "judgeWithClaude env inp out rubric goal =
     bindM (lift (case rubric of Some v \<Rightarrow> entries v | None \<Rightarrow> Inl TypeError)) (\<lambda>criteria.
     bindM (interpolate (map Some criteria)) (\<lambda>_.
     bindM (call Anthropic (anthropic env) (Judge goal inp out criteria)) (\<lambda>r.
       case match_object (or_else r ''{}'') of
         None \<Rightarrow> return (parse_failure_verdict criteria)
       | Some m \<Rightarrow> parse env m)))"

subsection \<open>Optimizer\<close>

text \<open>\<^verbatim>\<open>f.rubricResults.filter((r) => !r.passed)\<close>.\<close>

fun not_passed :: "json list \<Rightarrow> js_error + json list" where
  "not_passed [] = Inr []"
| "not_passed (r # rs) =
     (case get_field (Some r) ''passed'' of
        Inl e \<Rightarrow> Inl e
      | Inr p \<Rightarrow>
          (case not_passed rs of
             Inl e \<Rightarrow> Inl e
           | Inr kept \<Rightarrow> Inr (if \<not> truthy p then r # kept else kept)))"

definition analyse :: "test_result \<Rightarrow> js_error + failure" where
  "analyse f =
     (case (case rubricResults f of Some v \<Rightarrow> entries v | None \<Rightarrow> Inl TypeError) of
        Inl e \<Rightarrow> Inl e
      | Inr rs \<Rightarrow>
          (case not_passed rs of
             Inl e \<Rightarrow> Inl e
           | Inr kept \<Rightarrow>
               Inr \<lparr>f_input = t_input f, f_output = take 200 (t_output f),
                    f_failureReason = failureReason f, failedCriteria = kept\<rparr>))"

fun failureAnalysis :: "test_result list \<Rightarrow> js_error + failure list" where
  "failureAnalysis [] = Inr []"
| "failureAnalysis (f # fs) =
     (case analyse f of
        Inl e \<Rightarrow> Inl e
      | Inr a \<Rightarrow> (case failureAnalysis fs of Inl e \<Rightarrow> Inl e | Inr as \<Rightarrow> Inr (a # as)))"

definition generateOptimizedPrompt ::
  "'w env \<Rightarrow> string \<Rightarrow> test_result list \<Rightarrow> string \<Rightarrow> string list option \<Rightarrow> (json, 'w) js" where
  "generateOptimizedPrompt env originalPrompt failed goal rubric =
     bindM (lift (failureAnalysis failed)) (\<lambda>analysis.
     bindM (case rubric of None \<Rightarrow> throw TypeError | Some criteria \<Rightarrow> return criteria) (\<lambda>criteria.
     bindM (call Anthropic (anthropic env) (Optimize originalPrompt goal criteria analysis)) (\<lambda>r.
       case match_object (or_else r ''{}'') of
         None \<Rightarrow> throw (Error ''Failed to generate optimization'')
       | Some m \<Rightarrow> parse env m)))"

subsection \<open>Evaluation Runner\<close>

text \<open>\<^verbatim>\<open>r.score === 0\<close>.\<close>

definition failed_results :: "test_result list \<Rightarrow> test_result list" where
  "failed_results results = filter (\<lambda>r. score r = Some (JNum (Fin 0))) results"

definition record_result :: "string \<Rightarrow> string \<Rightarrow> json \<Rightarrow> js_error + test_result" where
  "record_result inp out judgeResult =
     (case get_field (Some judgeResult) ''score'' of
        Inl e \<Rightarrow> Inl e
      | Inr sc \<Rightarrow>
          Inr \<lparr>t_input = inp, t_output = out, score = sc,
               failureReason = opt_field (Some judgeResult) ''failureReason'',
               rubricResults = opt_field (Some judgeResult) ''rubricResults''\<rparr>)"

text \<open>The first loop. The trace sink \<^verbatim>\<open>logToLangSmith\<close> leaves no mark on the
  run and is left out, as is \<^verbatim>\<open>createFailureDataset\<close>, which catches its own
  errors.\<close>

fun run_tests ::
  "'w env \<Rightarrow> string \<Rightarrow> string \<Rightarrow> nat \<Rightarrow> nat \<Rightarrow> json list \<Rightarrow> test_result list \<Rightarrow> (test_result list, 'w) js" where
  "run_tests env prompt goal n index [] results = return results"
| "run_tests env prompt goal n index (testCase # rest) results =
     bindM (lift (input_of testCase)) (\<lambda>inp.
     bindM (sendLog (''Test '' @ show_nat (index + 1) @ ''/'' @ show_nat n) Running
              (Some [S ''Input: '', S (take 50 inp), S ''...''])) (\<lambda>_.
     bindM (executePromptWithGemini env prompt inp) (\<lambda>out.
     bindM (judgeWithClaude env inp out (opt_field (Some testCase) ''rubric'') goal) (\<lambda>judgeResult.
     bindM (lift (record_result inp out judgeResult)) (\<lambda>result.
     bindM (sendLog (''Test '' @ show_nat (index + 1) @ '' completed'') Completed
              (Some [S ''Score: '', V (score result)])) (\<lambda>_.
     run_tests env prompt goal n (index + 1) rest (results @ [result])))))))"

text \<open>The second loop, on the optimized prompt: \<^verbatim>\<open>prompt.replace\<close> is a
  \<^verbatim>\<open>TypeError\<close> unless the proposal's \<^verbatim>\<open>prompt\<close> is a string. Every test
  case has passed the first loop, so its \<^verbatim>\<open>input\<close> is a string.\<close>

definition as_template :: "jsval \<Rightarrow> js_error + string" where
  "as_template v = (case v of Some (JStr p) \<Rightarrow> Inr p | _ \<Rightarrow> Inl TypeError)"

fun run_optimized ::
  "'w env \<Rightarrow> jsval \<Rightarrow> string \<Rightarrow> json list \<Rightarrow> test_result list \<Rightarrow> (test_result list, 'w) js" where
  "run_optimized env optimized goal [] results = return results"
| "run_optimized env optimized goal (testCase # rest) results =
     bindM (lift (input_of testCase)) (\<lambda>inp.
     bindM (lift (as_template optimized)) (\<lambda>template.
     bindM (executePromptWithGemini env template inp) (\<lambda>out.
     bindM (judgeWithClaude env inp out (opt_field (Some testCase) ''rubric'') goal) (\<lambda>judgeResult.
     bindM (lift (record_result inp out judgeResult)) (\<lambda>result.
     run_optimized env optimized goal rest (results @ [result]))))))"

text \<open>Phase 1 and Phase 2: the prompt version and the synthetic dataset.
  \<open>now\<close> is the reading of \<^verbatim>\<open>Date.now()\<close>.\<close>

definition dataset_phase ::
  "'w env \<Rightarrow> string \<Rightarrow> string \<Rightarrow> string \<Rightarrow> string list option \<Rightarrow> nat \<Rightarrow> (json, 'w) js" where
  "dataset_phase env prompt goal name rubric now =
     bindM (sendLog ''Saving to Prompt Hub'' Running
              (Some [S ''Saving as '', S [CHR 0x22], S name, S [CHR 0x22]])) (\<lambda>_.
     bindM (sendLog ''Prompt saved'' Completed
              (Some [S ''Version: '', S (''v'' @ show_nat now)])) (\<lambda>_.
     bindM (sendLog ''Generating test dataset'' Running
              (Some [S ''Using Gemini 2.0 Flash to create 2 test cases''])) (\<lambda>_.
     bindM (generateSyntheticDataset_rubric env prompt goal rubric) (\<lambda>testCases.
     bindM (lift (get_length (Some testCases))) (\<lambda>n.
     bindM (sendLog ''Dataset generated'' Completed
              (Some [S ''Created '', V n, S '' test cases''])) (\<lambda>_.
     return testCases))))))"

text \<open>Phase 3: the prompt against the dataset.\<close>

definition test_phase ::
  "'w env \<Rightarrow> string \<Rightarrow> string \<Rightarrow> json \<Rightarrow> (test_result list, 'w) js" where
  "test_phase env prompt goal testCases =
     bindM (sendLog ''Running tests'' Running
              (Some [S ''Executing prompt with Gemini 2.0 Flash''])) (\<lambda>_.
     bindM (lift (entries testCases)) (\<lambda>tcs.
     bindM (run_tests env prompt goal (length tcs) 0 tcs []) (\<lambda>results.
     bindM (sendLog ''Tests completed'' Completed
              (Some [S (show_nat (length (failed_results results))), S ''/'',
                     S (show_nat (length results)), S '' tests failed''])) (\<lambda>_.
     return results))))"

text \<open>Phase 4 and Phase 5, and what they leave in \<^verbatim>\<open>optimizedPrompt\<close>,
  \<^verbatim>\<open>optimizationReasoning\<close> and \<^verbatim>\<open>changes\<close>.\<close>

definition optimize_phase ::
  "'w env \<Rightarrow> string \<Rightarrow> string \<Rightarrow> string list option \<Rightarrow> json \<Rightarrow> test_result list
     \<Rightarrow> (jsval \<times> jsval \<times> jsval, 'w) js" where
  "optimize_phase env prompt goal rubric testCases failedResults =
     (if failedResults \<noteq> [] then
        bindM (sendLog ''Analyzing failures'' Running
                 (Some [S ''Creating failure dataset in LangSmith''])) (\<lambda>_.
        bindM (sendLog ''Generating optimized prompt'' Running
                 (Some [S ''Claude analyzing failure patterns''])) (\<lambda>_.
        bindM (generateOptimizedPrompt env prompt failedResults goal rubric) (\<lambda>optimization.
        bindM (lift (get_field (Some optimization) ''prompt'')) (\<lambda>optimized.
        let why = opt_field (Some optimization) ''reasoning'';
            chs = opt_field (Some optimization) ''changes''
        in
        bindM (lift (get_length chs)) (\<lambda>k.
        bindM (sendLog ''Optimization complete'' Completed
                 (Some [S ''Generated improved prompt with '', V k, S '' changes''])) (\<lambda>_.
        bindM (sendLog ''Testing optimized prompt'' Running
                 (Some [S ''Running A/B comparison''])) (\<lambda>_.
        bindM (lift (entries testCases)) (\<lambda>tcs.
        bindM (run_optimized env optimized goal tcs []) (\<lambda>optimizedResults.
        bindM (sendLog ''A/B test complete'' Completed
                 (Some [S ''Original: '', S (show_nat (length failedResults)),
                        S '' failures, Optimized: '',
                        S (show_nat (length (failed_results optimizedResults))),
                        S '' failures''])) (\<lambda>_.
        return (optimized, why, chs)))))))))))
      else
        bindM (sendLog ''All tests passed'' Completed
                 (Some [S ''No optimization needed - prompt is already performing well!''])) (\<lambda>_.
        return (Some (JStr prompt), Some (JStr []), Some (JArr []))))"

definition originalPassRate :: "test_result list \<Rightarrow> string" where
  "originalPassRate results =
     toFixed 1 (js_times
       (js_div (of_nat (length results - length (failed_results results))) (of_nat (length results)))
       100)"

definition optimize_steps ::
  "'w env \<Rightarrow> string \<Rightarrow> string \<Rightarrow> string \<Rightarrow> string list option \<Rightarrow> nat \<Rightarrow> (event, 'w) js" where
  "optimize_steps env prompt goal name rubric now =
     bindM (dataset_phase env prompt goal name rubric now) (\<lambda>testCases.
     bindM (test_phase env prompt goal testCases) (\<lambda>results.
     bindM (optimize_phase env prompt goal rubric testCases (failed_results results))
       (\<lambda>(optimized, why, chs).
     bindM get_logs (\<lambda>l.
     return (Complete_optimization
       \<lparr>o_originalPrompt = prompt, o_optimizedPrompt = optimized,
        o_promptName = name @ ''-'' @ ''v'' @ show_nat now, o_goal = goal, o_rubric = rubric,
        o_originalResults = results,
        o_metrics = \<lparr>m_originalPassRate = originalPassRate results,
                     m_totalTests = length results,
                     m_failures = length (failed_results results)\<rparr>,
        o_reasoning = why, o_changes = chs, o_logs = l\<rparr>)))))"

text \<open>The handler. The request fields are the strings of the body; an empty
  string stands for a missing field.\<close>

definition optimize_handler ::
  "'w env \<Rightarrow> string \<Rightarrow> string \<Rightarrow> string \<Rightarrow> string list option \<Rightarrow> nat \<Rightarrow> (event, 'w) js" where
  "optimize_handler env prompt goal name rubric now =
     try_catch
       (if prompt = [] \<or> goal = [] \<or> name = [] then
          bindM (sendLog ''Error'' Failed (Some [S ''Missing required fields''])) (\<lambda>_.
          return (Error_event ''Missing prompt, goal, or promptName'' None None))
        else if \<not> GEMINI_API_KEY env then
          bindM (sendLog ''Error'' Failed (Some [S ''Gemini API key not configured''])) (\<lambda>_.
          return (Error_event ''Gemini API key not configured''
                    (Some [S ''Please add GEMINI_API_KEY to your environment variables'']) None))
        else if \<not> LANGSMITH_API_KEY env then
          bindM (sendLog ''Error'' Failed (Some [S ''LangSmith API key not configured''])) (\<lambda>_.
          return (Error_event ''LangSmith API key not configured''
                    (Some [S ''Please add LANGSMITH_API_KEY to your environment variables'']) None))
        else optimize_steps env prompt goal name rubric now)
       (\<lambda>error.
          bindM (sendLog ''Error occurred'' Failed (Some [M error])) (\<lambda>_.
          bindM get_logs (\<lambda>l.
          return (Error_event ''Failed to optimize prompt'' (Some [M error]) (Some l)))))"

definition POST_optimize ::
  "'w env \<Rightarrow> string \<Rightarrow> string \<Rightarrow> string \<Rightarrow> string list option \<Rightarrow> nat \<Rightarrow> 'w \<Rightarrow> event list" where
  "POST_optimize env prompt goal name rubric now w =
     stream_of (optimize_handler env prompt goal name rubric now (initial w))"

section \<open>Notions used in the statements\<close>

text \<open>The text a provider call hands to the caller, with the caller's default
  for a reply without text.\<close>

fun reply_text :: "reply \<Rightarrow> string \<Rightarrow> string" where
  "reply_text (Text t) d = t"
| "reply_text r d = d"

text \<open>What one generation attempt makes of a provider's reply: the provider's
  failure, the \<^verbatim>\<open>Error\<close> with the given message when the text has no
  bracketed part, the \<^verbatim>\<open>SyntaxError\<close> of the parser, or the parsed value,
  whatever its shape.\<close>

definition attempt :: "'w env \<Rightarrow> string \<Rightarrow> reply \<Rightarrow> js_error + json" where
  "attempt env message r =
     (if r = Throws then Inl ProviderFailure
      else case match_array (reply_text r []) of
             None \<Rightarrow> Inl (Error message)
           | Some m \<Rightarrow> (case JSON_parse env m of None \<Rightarrow> Inl SyntaxError | Some v \<Rightarrow> Inr v))"

text \<open>The JSON object in an answer of the judge or of the optimizer, if there
  is one.\<close>

definition object_of :: "'w env \<Rightarrow> reply \<Rightarrow> json option" where
  "object_of env r =
     (if r = Throws then None
      else case match_object (reply_text r ''{}'') of
             None \<Rightarrow> None
           | Some m \<Rightarrow> JSON_parse env m)"

definition array_of :: "'w env \<Rightarrow> reply \<Rightarrow> json option" where
  "array_of env r =
     (if r = Throws then None
      else case match_array (reply_text r []) of
             None \<Rightarrow> None
           | Some m \<Rightarrow> JSON_parse env m)"

text \<open>Provider calls of interest: a completion that failed on the fallback
  provider as well, a call of the Optimizer, and an Optimizer answer without
  a JSON object.\<close>

fun completion_failed :: "provider_call \<Rightarrow> bool" where
  "completion_failed (Groq, Execute q, Throws) = True"
| "completion_failed c = False"

fun optimizer_call :: "provider_call \<Rightarrow> bool" where
  "optimizer_call (p, Optimize a b c d, r) = True"
| "optimizer_call (p, Improve a b, r) = True"
| "optimizer_call c = False"

fun optimizer_unparsed :: "'w env \<Rightarrow> provider_call \<Rightarrow> bool" where
  "optimizer_unparsed env (p, Optimize a b c d, r) = (object_of env r = None)"
| "optimizer_unparsed env c = False"

text \<open>An answer of the one-shot Optimizer without a JSON array.\<close>

fun proposals_unparsed :: "'w env \<Rightarrow> provider_call \<Rightarrow> bool" where
  "proposals_unparsed env (p, Improve a b, r) = (array_of env r = None)"
| "proposals_unparsed env c = False"

text \<open>A computation that makes no call of a given kind, and one that makes
  none when it returns normally.\<close>

definition quiet :: "(provider_call \<Rightarrow> bool) \<Rightarrow> ('a, 'w) js \<Rightarrow> bool" where
  "quiet bad m = (\<forall>s. filter bad (calls (snd (m s))) = filter bad (calls s))"

definition fatal :: "(provider_call \<Rightarrow> bool) \<Rightarrow> ('a, 'w) js \<Rightarrow> bool" where
  "fatal bad m =
     (\<forall>s x. fst (m s) = Inr x \<longrightarrow> filter bad (calls (snd (m s))) = filter bad (calls s))"

text \<open>The mean of the dimension scores, and the value of the dimensions that
  do not apply to a test case.\<close>

definition applicable_scores :: "json \<Rightarrow> scores \<Rightarrow> bool" where
  "applicable_scores testCase sc =
     (let metadata = opt_field (Some testCase) ''metadata'' in
      (\<not> truthy (opt_field metadata ''expectsJSON'') \<longrightarrow> jsonValidity sc = 1) \<and>
      (\<not> truthy (opt_field metadata ''expectedTone'') \<longrightarrow> tone sc = 1))"

text \<open>A request that passes the checks made before the first call.\<close>

definition valid_request :: "'w env \<Rightarrow> string \<Rightarrow> string \<Rightarrow> string \<Rightarrow> bool" where
  "valid_request env prompt goal name =
     (prompt \<noteq> [] \<and> goal \<noteq> [] \<and> name \<noteq> [] \<and> GEMINI_API_KEY env \<and> LANGSMITH_API_KEY env)"

section \<open>Scenarios\<close>

text \<open>A test case without metadata, and judges that find the output factual
  but not as good as the reference.\<close>

definition demo_case :: json where
  "demo_case = JObj [(''input'', JStr ''2+2?''), (''expected'', JStr ''4'')]"

definition demo_judges :: "unit env" where
  "demo_judges =
     \<lparr>gemini = (\<lambda>req w. (Throws, w)),
      groq = (\<lambda>req w. (Throws, w)),
      anthropic = (\<lambda>req w.
        (case req of
           Factuality_factual out expected \<Rightarrow> Text ''1''
         | Battle_compare inp out expected \<Rightarrow> Text ''The answer is 0''
         | _ \<Rightarrow> Throws, w)),
      JSON_parse = (\<lambda>t. None),
      GEMINI_API_KEY = True,
      LANGSMITH_API_KEY = True\<rparr>"

definition result_with :: "rat \<Rightarrow> eval_result" where
  "result_with x =
     \<lparr>e_input = ''2+2?'', e_output = ''4'', e_expected = Some (JStr ''4''),
      e_scores = \<lparr>factuality = 0, battle = 0, jsonValidity = 0, tone = 0, overall = x\<rparr>,
      e_metadata = None\<rparr>"

text \<open>One generated test case, a judge's verdict, and \<^verbatim>\<open>JSON.parse\<close> on the
  texts of the scenarios. A primary provider that is down, with a fallback
  provider that answers; and both providers down for the completion.\<close>

definition one_case_text :: string where
  \<open>one_case_text = ''[{"input":"2+2?","rubric":["must state 4"]}]''\<close>

definition one_case :: json where
  "one_case = JArr [JObj [(''input'', JStr ''2+2?''), (''rubric'', JArr [JStr ''must state 4''])]]"

definition verdict_pass_text :: string where
  \<open>verdict_pass_text = ''{"score":1,"rubricResults":[{"criterion":"must state 4","passed":true}]}''\<close>

definition verdict_pass :: json where
  "verdict_pass = JObj [(''score'', JNum (Fin 1)),
     (''rubricResults'', JArr [JObj [(''criterion'', JStr ''must state 4''), (''passed'', JBool True)]])]"

definition eval_case_text :: string where
  \<open>eval_case_text = ''[{"input":"2+2?","expected":"4"}]''\<close>

definition eval_case :: json where
  "eval_case = JArr [JObj [(''input'', JStr ''2+2?''), (''expected'', JStr ''4'')]]"

definition verdict_fail_text :: string where
  \<open>verdict_fail_text =
     ''{"score":0,"failureReason":"wrong","rubricResults":[{"criterion":"must state 4","passed":false}]}''\<close>

definition verdict_fail :: json where
  "verdict_fail = JObj [(''score'', JNum (Fin 0)), (''failureReason'', JStr ''wrong''),
     (''rubricResults'', JArr [JObj [(''criterion'', JStr ''must state 4''), (''passed'', JBool False)]])]"

definition parse_table :: "string \<Rightarrow> json option" where
  "parse_table = map_of [(one_case_text, one_case), (verdict_pass_text, verdict_pass),
     (eval_case_text, eval_case), (verdict_fail_text, verdict_fail)]"

definition primary_down :: "unit env" where
  "primary_down =
     \<lparr>gemini = (\<lambda>req w. (Throws, w)),
      groq = (\<lambda>req w.
        (case req of
           Generate_rubric_cases p g r \<Rightarrow> Text one_case_text
         | Execute q \<Rightarrow> Text ''fallback text''
         | _ \<Rightarrow> Throws, w)),
      anthropic = (\<lambda>req w. (Text verdict_pass_text, w)),
      JSON_parse = parse_table,
      GEMINI_API_KEY = True,
      LANGSMITH_API_KEY = True\<rparr>"

definition both_down :: "unit env" where
  "both_down =
     \<lparr>gemini = (\<lambda>req w. (Throws, w)),
      groq = (\<lambda>req w.
        (case req of
           Generate_rubric_cases p g r \<Rightarrow> Text one_case_text
         | _ \<Rightarrow> Throws, w)),
      anthropic = (\<lambda>req w. (Text verdict_pass_text, w)),
      JSON_parse = parse_table,
      GEMINI_API_KEY = True,
      LANGSMITH_API_KEY = True\<rparr>"

fun recorded_outputs :: "event \<Rightarrow> string list" where
  "recorded_outputs (Complete_optimization e) = map t_output (o_originalResults e)"
| "recorded_outputs (Complete_evaluation e) = map e_output (ev_results e)"
| "recorded_outputs ev = []"

text \<open>Providers that answer the generation request without any bracketed text;
  a primary provider that answers in prose, with a fallback provider that
  answers with an array whose element has no \<^verbatim>\<open>input\<close>, or with a test case.\<close>

definition no_cases :: "unit env" where
  "no_cases =
     \<lparr>gemini = (\<lambda>req w. (Text ''I cannot help with that.'', w)),
      groq = (\<lambda>req w. (Text ''Sorry.'', w)),
      anthropic = (\<lambda>req w. (Throws, w)),
      JSON_parse = parse_table,
      GEMINI_API_KEY = True,
      LANGSMITH_API_KEY = True\<rparr>"

definition shapeless :: "unit env" where
  "shapeless =
     \<lparr>gemini = (\<lambda>req w. (Text ''No test cases today.'', w)),
      groq = (\<lambda>req w. (Text ''[{}]'', w)),
      anthropic = (\<lambda>req w. (Throws, w)),
      JSON_parse = map_of [(''[{}]'', JArr [JObj []])],
      GEMINI_API_KEY = True,
      LANGSMITH_API_KEY = True\<rparr>"

definition talkative_primary :: "unit env" where
  "talkative_primary =
     \<lparr>gemini = (\<lambda>req w. (Text ''Sure! Here are some ideas.'', w)),
      groq = (\<lambda>req w. (Text one_case_text, w)),
      anthropic = (\<lambda>req w. (Throws, w)),
      JSON_parse = parse_table,
      GEMINI_API_KEY = True,
      LANGSMITH_API_KEY = True\<rparr>"

text \<open>A run in which the only test case fails and the Optimizer answers in
  prose, in either route.\<close>

definition mute_optimizer :: "unit env" where
  "mute_optimizer =
     \<lparr>gemini = (\<lambda>req w.
        (case req of
           Generate_rubric_cases p g r \<Rightarrow> Text one_case_text
         | Generate_cases p \<Rightarrow> Text eval_case_text
         | _ \<Rightarrow> Text ''5'', w)),
      groq = (\<lambda>req w. (Throws, w)),
      anthropic = (\<lambda>req w.
        (case req of
           Execute q \<Rightarrow> Text ''5''
         | Judge g i out r \<Rightarrow> Text verdict_fail_text
         | Optimize p g r fs \<Rightarrow> Text ''I would rewrite the prompt.''
         | Improve p fs \<Rightarrow> Text ''I have no suggestions.''
         | _ \<Rightarrow> Text ''0'', w)),
      JSON_parse = parse_table,
      GEMINI_API_KEY = True,
      LANGSMITH_API_KEY = True\<rparr>"

definition wrong_answer :: test_result where
  "wrong_answer = \<lparr>t_input = ''2+2?'', t_output = ''5'', score = Some (JNum (Fin 0)),
     failureReason = Some (JStr ''wrong''),
     rubricResults = Some (JArr [JObj [(''criterion'', JStr ''must state 4''),
                                       (''passed'', JBool False)]])\<rparr>"

definition wrong_answer_analysis :: failure where
  "wrong_answer_analysis = \<lparr>f_input = ''2+2?'', f_output = ''5'',
     f_failureReason = Some (JStr ''wrong''),
     failedCriteria = [JObj [(''criterion'', JStr ''must state 4''), (''passed'', JBool False)]]\<rparr>"

text \<open>The result of that test case in the evaluation route, and the proposals
  of a final record.\<close>

definition half_right :: eval_result where
  "half_right =
     \<lparr>e_input = ''2+2?'', e_output = ''5'', e_expected = Some (JStr ''4''),
      e_scores = \<lparr>factuality = 0, battle = 0, jsonValidity = 1, tone = 1, overall = 1 / 2\<rparr>,
      e_metadata = None\<rparr>"

fun proposals :: "event \<Rightarrow> json option" where
  "proposals (Complete_evaluation e) = Some (improvedPrompts e)"
| "proposals ev = None"

text \<open>A judge whose verdict gives score 1 with a criterion that did not pass,
  and a judge that answers in prose.\<close>

definition verdict_odd_text :: string where
  \<open>verdict_odd_text = ''{"score":1,"rubricResults":[{"criterion":"must state 4","passed":false}]}''\<close>

definition verdict_odd :: json where
  "verdict_odd = JObj [(''score'', JNum (Fin 1)),
     (''rubricResults'', JArr [JObj [(''criterion'', JStr ''must state 4''), (''passed'', JBool False)]])]"

definition lenient_judge :: "unit env" where
  "lenient_judge =
     \<lparr>gemini = (\<lambda>req w. (Throws, w)),
      groq = (\<lambda>req w. (Throws, w)),
      anthropic = (\<lambda>req w. (Text (''Verdict: '' @ verdict_odd_text), w)),
      JSON_parse = map_of [(verdict_odd_text, verdict_odd)],
      GEMINI_API_KEY = True,
      LANGSMITH_API_KEY = True\<rparr>"

definition silent_judge :: "unit env" where
  "silent_judge =
     \<lparr>gemini = (\<lambda>req w. (Throws, w)),
      groq = (\<lambda>req w. (Throws, w)),
      anthropic = (\<lambda>req w. (Text ''It looks fine to me.'', w)),
      JSON_parse = map_of [(verdict_odd_text, verdict_odd)],
      GEMINI_API_KEY = True,
      LANGSMITH_API_KEY = True\<rparr>"

text \<open>A generator that answers with the empty array, and the rates of a final
  record.\<close>

definition empty_dataset :: "unit env" where
  "empty_dataset =
     \<lparr>gemini = (\<lambda>req w. (Text ''[]'', w)),
      groq = (\<lambda>req w. (Throws, w)),
      anthropic = (\<lambda>req w. (Throws, w)),
      JSON_parse = map_of [(''[]'', JArr [])],
      GEMINI_API_KEY = True,
      LANGSMITH_API_KEY = True\<rparr>"

fun rates :: "event \<Rightarrow> string list" where
  "rates (Complete_evaluation e) = [success_rate (ev_summary e), average_score (ev_summary e)]"
| "rates (Complete_optimization e) = [m_originalPassRate (o_metrics e)]"
| "rates ev = []"

text \<open>The number of failing results in a final record, and a final record that
  proposes no change. A run of the evaluation route in which the only test
  case passes.\<close>

fun original_failures :: "event \<Rightarrow> nat" where
  "original_failures (Complete_optimization e) = length (failed_results (o_originalResults e))"
| "original_failures (Complete_evaluation e) = length (failing (ev_results e))"
| "original_failures ev = 0"

fun keeps_prompt :: "string \<Rightarrow> event \<Rightarrow> bool" where
  "keeps_prompt prompt (Complete_optimization e) =
     (o_optimizedPrompt e = Some (JStr prompt) \<and> o_changes e = Some (JArr []))"
| "keeps_prompt prompt (Complete_evaluation e) = (improvedPrompts e = JArr [])"
| "keeps_prompt prompt ev = False"

definition good_run :: "unit env" where
  "good_run =
     \<lparr>gemini = (\<lambda>req w. (Text eval_case_text, w)),
      groq = (\<lambda>req w. (Throws, w)),
      anthropic = (\<lambda>req w. (case req of Execute q \<Rightarrow> Text ''4'' | _ \<Rightarrow> Text ''1'', w)),
      JSON_parse = parse_table,
      GEMINI_API_KEY = True,
      LANGSMITH_API_KEY = True\<rparr>"

text \<open>A test case whose interpolated values all have a string, as the strings
  of the \<^verbatim>\<open>TestCase\<close> type have; and a test case whose expected tone is a
  parsed object with a \<^verbatim>\<open>toString\<close> key.\<close>

definition convertible_case :: "json \<Rightarrow> bool" where
  "convertible_case testCase =
     (converts (opt_field (Some testCase) ''expected'')
      \<and> converts (opt_field (Some testCase) ''input'')
      \<and> converts (opt_field (opt_field (Some testCase) ''metadata'') ''expectedTone''))"

definition object_tone_case :: json where
  "object_tone_case =
     JObj [(''input'', JStr ''2+2?''), (''expected'', JStr ''4''),
           (''metadata'', JObj [(''expectedTone'', JObj [(''toString'', JNum (Fin 1))])])]"

section \<open>The monad\<close>

lemma bindM_Inr:
  "m s = (Inr x, s1) \<Longrightarrow> bindM m f s = f x s1"
  by (simp add: bindM_def)

lemma bindM_Inl:
  "m s = (Inl e, s1) \<Longrightarrow> bindM m f s = (Inl e, s1)"
  by (simp add: bindM_def)

lemma bindM_returns:
  assumes "bindM m f s = (Inr y, s')"
  obtains x s1 where "m s = (Inr x, s1)" and "f x s1 = (Inr y, s')"
  using assms by (cases "m s") (auto simp: bindM_def split: sum.splits)

lemma bindM_return [simp]: "bindM (return x) f = f x"
  by (rule ext) (simp add: bindM_def return_def)

lemma bindM_throw [simp]: "bindM (throw e) f = throw e"
  by (rule ext) (simp add: bindM_def throw_def)

lemma bindM_lift_Inr [simp]: "bindM (lift (Inr x)) f = f x"
  by (rule ext) (simp add: bindM_def lift_def)

lemma bindM_lift_Inl [simp]: "bindM (lift (Inl e)) f = throw e"
  by (rule ext) (simp add: bindM_def lift_def throw_def)

lemma bindM_sendLog:
  "text_converts d \<Longrightarrow>
   bindM (sendLog p st d) f s =
     f () (s\<lparr>logs := logs s @ [\<lparr>phase = p, status = st, details = d\<rparr>]\<rparr>)"
  by (simp add: bindM_def sendLog_def text_converts_def converts_def interpolate_def)

lemma bindM_get_logs: "bindM get_logs f s = f (logs s) s"
  by (simp add: bindM_def get_logs_def)

subsection \<open>Calls made and calls not made\<close>

lemma quiet_return: "quiet bad (return x)"
  by (simp add: quiet_def return_def)

lemma quiet_throw: "quiet bad (throw e)"
  by (simp add: quiet_def throw_def)

lemma quiet_lift: "quiet bad (lift r)"
  by (simp add: quiet_def lift_def)

lemma quiet_sendLog: "quiet bad (sendLog p st d)"
  by (simp add: quiet_def sendLog_def)

lemma quiet_interpolate: "quiet bad (interpolate vs)"
  by (simp add: quiet_def interpolate_def)

lemma quiet_get_logs: "quiet bad get_logs"
  by (simp add: quiet_def get_logs_def)

lemma quiet_parse: "quiet bad (parse env t)"
  by (simp add: parse_def quiet_return quiet_throw split: option.splits)

lemma quiet_call:
  assumes "\<And>r. \<not> bad (p, req, r)"
  shows "quiet bad (call p f req)"
  using assms by (auto simp: quiet_def call_def split: prod.splits)

lemma quiet_bindM:
  assumes "quiet bad m" and "\<And>x. quiet bad (f x)"
  shows "quiet bad (bindM m f)"
  unfolding quiet_def
proof
  fix s
  show "filter bad (calls (snd (bindM m f s))) = filter bad (calls s)"
  proof (cases "m s")
    case (Pair r s1)
    with assms(1) have m: "filter bad (calls s1) = filter bad (calls s)"
      by (metis quiet_def snd_conv)
    show ?thesis
    proof (cases r)
      case (Inl e)
      with Pair m show ?thesis by (simp add: bindM_def)
    next
      case (Inr x)
      from assms(2) have "filter bad (calls (snd (f x s1))) = filter bad (calls s1)"
        by (simp add: quiet_def)
      with Pair Inr m show ?thesis by (simp add: bindM_def)
    qed
  qed
qed

lemma quiet_try_catch:
  assumes "quiet bad m" and "\<And>e. quiet bad (h e)"
  shows "quiet bad (try_catch m h)"
  unfolding quiet_def
proof
  fix s
  show "filter bad (calls (snd (try_catch m h s))) = filter bad (calls s)"
  proof (cases "m s")
    case (Pair r s1)
    with assms(1) have m: "filter bad (calls s1) = filter bad (calls s)"
      by (metis quiet_def snd_conv)
    show ?thesis
    proof (cases r)
      case (Inl e)
      from assms(2) have "filter bad (calls (snd (h e s1))) = filter bad (calls s1)"
        by (simp add: quiet_def)
      with Pair Inl m show ?thesis by (simp add: try_catch_def)
    next
      case (Inr x)
      with Pair m show ?thesis by (simp add: try_catch_def)
    qed
  qed
qed

lemma quiet_step:
  assumes "quiet bad m" and "\<And>x. quiet bad (f x)"
  shows "quiet bad (step cur m f)"
  unfolding quiet_def
proof
  fix s
  show "filter bad (calls (snd (step cur m f s))) = filter bad (calls s)"
  proof (cases "m s")
    case (Pair r s1)
    with assms(1) have m: "filter bad (calls s1) = filter bad (calls s)"
      by (metis quiet_def snd_conv)
    show ?thesis
    proof (cases r)
      case (Inl e)
      with Pair m show ?thesis by (simp add: step_def)
    next
      case (Inr x)
      from assms(2) have "filter bad (calls (snd (f x s1))) = filter bad (calls s1)"
        by (simp add: quiet_def)
      with Pair Inr m show ?thesis by (simp add: step_def)
    qed
  qed
qed

lemma quiet_fatal: "quiet bad m \<Longrightarrow> fatal bad m"
  by (simp add: quiet_def fatal_def)

lemma fatal_bindM:
  assumes "fatal bad m" and "\<And>x. fatal bad (f x)"
  shows "fatal bad (bindM m f)"
  unfolding fatal_def
proof (intro allI impI)
  fix s y
  assume ok: "fst (bindM m f s) = Inr y"
  obtain r s1 where ms: "m s = (r, s1)" by (cases "m s")
  show "filter bad (calls (snd (bindM m f s))) = filter bad (calls s)"
  proof (cases r)
    case (Inl e)
    with ms ok show ?thesis by (simp add: bindM_def)
  next
    case (Inr x)
    with ms assms(1) have m: "filter bad (calls s1) = filter bad (calls s)"
      by (metis fatal_def fst_conv snd_conv)
    from ms Inr ok have "fst (f x s1) = Inr y" by (simp add: bindM_def)
    with assms(2) have "filter bad (calls (snd (f x s1))) = filter bad (calls s1)"
      by (simp add: fatal_def)
    with ms Inr m show ?thesis by (simp add: bindM_def)
  qed
qed

lemma fatal_try_catch:
  assumes "quiet bad m" and "\<And>e. fatal bad (h e)"
  shows "fatal bad (try_catch m h)"
  unfolding fatal_def
proof (intro allI impI)
  fix s y
  assume ok: "fst (try_catch m h s) = Inr y"
  obtain r s1 where ms: "m s = (r, s1)" by (cases "m s")
  with assms(1) have m: "filter bad (calls s1) = filter bad (calls s)"
    by (metis quiet_def snd_conv)
  show "filter bad (calls (snd (try_catch m h s))) = filter bad (calls s)"
  proof (cases r)
    case (Inl e)
    from ms Inl ok have "fst (h e s1) = Inr y" by (simp add: try_catch_def)
    with assms(2) have "filter bad (calls (snd (h e s1))) = filter bad (calls s1)"
      by (simp add: fatal_def)
    with ms Inl m show ?thesis by (simp add: try_catch_def)
  next
    case (Inr x)
    with ms m show ?thesis by (simp add: try_catch_def)
  qed
qed

lemmas quiet_rules =
  quiet_return quiet_throw quiet_lift quiet_sendLog quiet_interpolate quiet_get_logs quiet_parse
  quiet_bindM quiet_try_catch quiet_step

subsection \<open>Doubles\<close>

lemma to_double_values [simp]:
  "to_double 0 = Fin 0"
  "to_double 1 = Fin 1"
  "to_double (1 / 2) = Fin (1 / 2)"
  "to_double 50 = Fin 50"
  "to_double 100 = Fin 100"
  by code_simp+

text \<open>Twenty-three tests passed of eighty: the quotient and the product are
  rounded, the rate is the double just below 28.75, and \<^verbatim>\<open>toFixed(1)\<close> gives
  \<^verbatim>\<open>28.7\<close>.\<close>

lemma rate_of_23_in_80: "toFixed 1 (js_times (js_div 23 80) 100) = ''28.7''"
  by code_simp

section \<open>Template Renderer\<close>

declare replaceFrom.simps [simp del] literalFrom.simps [simp del] count_placeholder.simps [simp del]

lemma getSubstitution_plain:
  "CHR ''$'' \<notin> set r \<Longrightarrow> getSubstitution m b a r = r"
  by (induction m b a r rule: getSubstitution.induct) auto

text \<open>For an input without a dollar sign the renderer is the literal one, and
  the length of its result is as the specification says.\<close>

lemma replaceFrom_plain:
  "CHR ''$'' \<notin> set i \<Longrightarrow> replaceFrom b s i = literalFrom s i"
proof (induction b s i rule: replaceFrom.induct)
  case (1 pre s replacement)
  show ?case
    using 1 by (subst replaceFrom.simps, subst literalFrom.simps) (simp add: getSubstitution_plain)
qed

lemma length_literalFrom:
  "int (length (literalFrom s i)) =
     int (length s) + int (count_placeholder s) * (int (length i) - int (length placeholder))"
proof (induction s i rule: literalFrom.induct)
  case (1 s i)
  show ?case
  proof (cases "s = []")
    case True
    then show ?thesis by (simp add: literalFrom.simps count_placeholder.simps)
  next
    case False
    show ?thesis
    proof (cases "prefix placeholder s")
      case True
      then have "length placeholder \<le> length s" by (rule prefix_length_le)
      with 1(1)[OF False True] False True show ?thesis
        by (subst literalFrom.simps, subst count_placeholder.simps) (simp add: algebra_simps)
    next
      case no: False
      from 1(2)[OF False no] False no show ?thesis
        by (subst literalFrom.simps, subst count_placeholder.simps) (cases s; simp add: algebra_simps)
    qed
  qed
qed

lemma render_plain_length:
  assumes "CHR ''$'' \<notin> set i"
  shows "render t i = literalFrom t i"
    and "int (length (render t i)) - int (length t)
           = int (count_placeholder t) * (int (length i) - int (length placeholder))"
  using assms by (simp_all add: render_def replaceFrom_plain length_literalFrom)

text \<open>
  C2. The specification has the renderer put the input into the template as it
  is, so that the length changes by the number of placeholders times the
  difference of the lengths. The code hands the input to \<^verbatim>\<open>replace\<close> as a
  replacement template: for the input \<^verbatim>\<open>$$\<close>, which does not contain the
  placeholder, the template \<^verbatim>\<open>{{input}}\<close> renders to a single dollar sign and
  the length formula fails; for the input \<^verbatim>\<open>a$&b\<close> the placeholder comes back.
\<close>

theorem render_reads_dollar_patterns:
  "render ''{{input}}'' ''$$'' = ''$''
   \<and> render ''{{input}}'' ''$$'' \<noteq> literalFrom ''{{input}}'' ''$$''
   \<and> int (length (render ''{{input}}'' ''$$'')) - int (length ''{{input}}'')
       \<noteq> int (count_placeholder ''{{input}}'') * (int (length ''$$'') - int (length placeholder))
   \<and> render ''Echo: {{input}}'' ''a$&b'' = ''Echo: a{{input}}b''"
  by (simp add: render_def placeholder_def replaceFrom.simps literalFrom.simps
      count_placeholder.simps)

section \<open>Judge\<close>

lemma scoreTone_result:
  "fst (scoreTone env out t s) = Inl TypeError \<and> truthy t \<and> \<not> converts t
   \<or> (\<exists>v. fst (scoreTone env out t s) = Inr v \<and> (v = 0 \<or> v = 1)
         \<and> (truthy t \<longrightarrow> converts t))"
  by (auto simp: scoreTone_def interpolate_def try_catch_def bindM_def return_def call_def Let_def
      split: prod.splits reply.splits sum.splits option.splits)

lemma scoreFactuality_result:
  "fst (scoreFactuality env out ex md s) =
     (if converts ex then fst (scoreFactuality env out ex md s) else Inl TypeError)
   \<and> (converts ex \<longrightarrow> (\<exists>v. fst (scoreFactuality env out ex md s) = Inr v \<and> (v = 0 \<or> v = 1)))"
  by (auto simp: scoreFactuality_def interpolate_def try_catch_def bindM_def return_def call_def
      Let_def split: prod.splits reply.splits sum.splits option.splits)

lemma scoreBattle_result:
  "(\<not> converts inp \<longrightarrow> fst (scoreBattle env inp out ex md s) = Inl TypeError)
   \<and> (converts inp \<longrightarrow> converts ex \<longrightarrow>
        (\<exists>v. fst (scoreBattle env inp out ex md s) = Inr v \<and> (v = 0 \<or> v = 1)))"
  by (auto simp: scoreBattle_def interpolate_def try_catch_def bindM_def return_def call_def
      Let_def split: prod.splits reply.splits sum.splits option.splits)

lemma truthy_converts: "\<not> truthy v \<Longrightarrow> converts v"
  by (cases v rule: truthy.cases) (simp_all add: converts_def)

text \<open>
  C3, as the code has it. When the values that the scorers put into their
  prompts have a string (the expected answer, the input and the expected tone
  of the test case: always so for the strings of the \<^verbatim>\<open>TestCase\<close> type),
  \<^verbatim>\<open>evaluateTestCase\<close> returns scores whose \<open>overall\<close> is the unweighted mean
  of the four dimension scores, the JSON dimension being 1 when JSON is not
  required and the tone dimension 1 when no tone is specified. When one of
  them has no string, the scorer throws while it builds its prompt, and the
  \<^verbatim>\<open>catch\<close> returns the scores assigned so far: \<open>overall\<close> and \<open>tone\<close> are 0.
\<close>

theorem overall_is_the_mean_when_the_prompts_build:
  "\<exists>sc. fst (evaluateTestCase env testCase out s) = Inr sc
      \<and> (convertible_case testCase \<longrightarrow>
           overall sc = (factuality sc + battle sc + jsonValidity sc + tone sc) / 4
           \<and> (testCase \<noteq> JNull \<longrightarrow> applicable_scores testCase sc))
      \<and> (\<not> convertible_case testCase \<longrightarrow> overall sc = 0 \<and> tone sc = 0)"
proof (cases "testCase = JNull")
  case True
  then show ?thesis
    by (simp add: evaluateTestCase_def step_def lift_def no_scores_def)
next
  case False
  then obtain ex where ex: "get_field (Some testCase) ''expected'' = Inr ex"
    and ex': "opt_field (Some testCase) ''expected'' = ex"
    by (cases testCase) (auto simp: opt_field_def)
  let ?md = "opt_field (Some testCase) ''metadata''"
  let ?inp = "opt_field (Some testCase) ''input''"
  let ?tone = "opt_field ?md ''expectedTone''"
  show ?thesis
  proof (cases "converts ex")
    case no: False
    obtain s1 where "scoreFactuality env out ex ?md s = (Inl TypeError, s1)"
      using scoreFactuality_result [of env out ex ?md s] no
      by (cases "scoreFactuality env out ex ?md s") auto
    with no ex' show ?thesis
      by (simp add: evaluateTestCase_def step_def lift_def ex Let_def no_scores_def
          convertible_case_def)
  next
    case cex: True
    obtain f s1 where f: "scoreFactuality env out ex ?md s = (Inr f, s1)"
      using scoreFactuality_result [of env out ex ?md s] cex
      by (cases "scoreFactuality env out ex ?md s") auto
    show ?thesis
    proof (cases "converts ?inp")
      case no: False
      obtain s2 where "scoreBattle env ?inp out ex ?md s1 = (Inl TypeError, s2)"
        using scoreBattle_result [of ?inp env out ex ?md s1] no
        by (cases "scoreBattle env ?inp out ex ?md s1") auto
      with no show ?thesis
        by (simp add: evaluateTestCase_def step_def lift_def ex f Let_def no_scores_def
            convertible_case_def)
    next
      case cin: True
      obtain b s2 where b: "scoreBattle env ?inp out ex ?md s1 = (Inr b, s2)"
        using scoreBattle_result [of ?inp env out ex ?md s1] cin cex
        by (cases "scoreBattle env ?inp out ex ?md s1") auto
      show ?thesis
      proof (cases "truthy ?tone")
        case False
        with cex cin ex' truthy_converts [OF False] show ?thesis
          by (simp add: evaluateTestCase_def step_def lift_def ex f b Let_def return_def
              applicable_scores_def convertible_case_def)
      next
        case tr: True
        from scoreTone_result [of env out ?tone s2] show ?thesis
        proof
          assume "fst (scoreTone env out ?tone s2) = Inl TypeError \<and> truthy ?tone
            \<and> \<not> converts ?tone"
          then obtain s3 where "scoreTone env out ?tone s2 = (Inl TypeError, s3)"
            and "\<not> converts ?tone"
            by (cases "scoreTone env out ?tone s2") auto
          with tr show ?thesis
            by (simp add: evaluateTestCase_def step_def lift_def ex f b Let_def no_scores_def
                convertible_case_def)
        next
          assume "\<exists>v. fst (scoreTone env out ?tone s2) = Inr v \<and> (v = 0 \<or> v = 1)
            \<and> (truthy ?tone \<longrightarrow> converts ?tone)"
          then obtain t s3 where "scoreTone env out ?tone s2 = (Inr t, s3)"
            and "converts ?tone"
            using tr by (cases "scoreTone env out ?tone s2") auto
          with tr cex cin ex' False show ?thesis
            by (simp add: evaluateTestCase_def step_def lift_def ex f b Let_def return_def
                applicable_scores_def convertible_case_def)
        qed
      qed
    qed
  qed
qed

lemmas judge_simps =
  evaluateTestCase_def step_def lift_def interpolate_def converts_def
  scoreFactuality_def scoreBattle_def scoreTone_def promptType_of_def js_or_def opt_field_def
  try_catch_def bindM_def call_def return_def Let_def no_scores_def initial_def
  lastDigit_def trim_def is_space_def applicable_scores_def convertible_case_def

theorem overall_is_the_mean_when_the_prompts_build_witness:
  "convertible_case demo_case
   \<and> demo_case \<noteq> JNull
   \<and> (\<exists>sc. fst (evaluateTestCase demo_judges demo_case ''4'' (initial ())) = Inr sc
        \<and> sc = \<lparr>factuality = 1, battle = 0, jsonValidity = 1, tone = 1, overall = 3 / 4\<rparr>
        \<and> overall sc = (factuality sc + battle sc + jsonValidity sc + tone sc) / 4
        \<and> applicable_scores demo_case sc)
   \<and> \<not> convertible_case object_tone_case
   \<and> (\<exists>sc. fst (evaluateTestCase good_run object_tone_case ''4'' (initial ())) = Inr sc
        \<and> overall sc = 0 \<and> tone sc = 0)"
  using overall_is_the_mean_when_the_prompts_build [of demo_judges demo_case "''4''" "initial ()"]
    overall_is_the_mean_when_the_prompts_build [of good_run object_tone_case "''4''" "initial ()"]
  by (simp add: judge_simps demo_case_def demo_judges_def object_tone_case_def good_run_def)

text \<open>The claim as the specification states it fails: with an expected tone
  that has no string, the first three scores are 1 and \<open>overall\<close> is 0.\<close>

theorem overall_mean_counterexample:
  "fst (evaluateTestCase good_run object_tone_case ''4'' (initial ())) =
     Inr \<lparr>factuality = 1, battle = 1, jsonValidity = 1, tone = 0, overall = 0\<rparr>
   \<and> (1 + 1 + 1 + 0) / 4 \<noteq> (0 :: rat)"
  by (simp add: judge_simps object_tone_case_def good_run_def)

section \<open>Summary\<close>



section \<open>Provider calls of a run\<close>

subsection \<open>The optimization route, call by call\<close>

lemma quiet_generateSyntheticDataset_rubric:
  assumes "\<And>p a b c r. \<not> bad (p, Generate_rubric_cases a b c, r)"
  shows "quiet bad (generateSyntheticDataset_rubric env prompt goal rubric)"
  unfolding generateSyntheticDataset_rubric_def
  by (auto intro!: quiet_rules quiet_call assms split: option.splits)

lemma quiet_judgeWithClaude:
  assumes "\<And>p a b c d r. \<not> bad (p, Judge a b c d, r)"
  shows "quiet bad (judgeWithClaude env inp out rubric goal)"
  unfolding judgeWithClaude_def
  by (auto intro!: quiet_rules quiet_call assms split: option.splits)

lemma quiet_executePromptWithGemini:
  assumes "\<And>p q r. \<not> bad (p, Execute q, r)"
  shows "quiet bad (executePromptWithGemini env prompt inp)"
  unfolding executePromptWithGemini_def Let_def
  by (auto intro!: quiet_rules quiet_call assms)

lemma quiet_generateOptimizedPrompt:
  assumes "\<And>p a b c d r. \<not> bad (p, Optimize a b c d, r)"
  shows "quiet bad (generateOptimizedPrompt env prompt failed goal rubric)"
  unfolding generateOptimizedPrompt_def
  by (auto intro!: quiet_rules quiet_call assms split: option.splits)

lemma fatal_executePromptWithGemini:
  "fatal completion_failed (executePromptWithGemini env prompt inp)"
  by (auto simp: fatal_def executePromptWithGemini_def try_catch_def bindM_def call_def
      return_def Let_def split: prod.splits reply.splits sum.splits)

lemma fatal_generateOptimizedPrompt:
  "fatal (optimizer_unparsed env) (generateOptimizedPrompt env prompt failed goal rubric)"
  by (auto simp: fatal_def generateOptimizedPrompt_def bindM_def call_def lift_def
      return_def throw_def parse_def object_of_def or_else_def
      split: prod.splits reply.splits sum.splits option.splits)

text \<open>The loops and the phases make a call of some kind only where the
  completion or the Optimizer does.\<close>

lemma fatal_run_tests:
  assumes "\<And>p a b c d r. \<not> bad (p, Judge a b c d, r)"
    and "\<And>inp. fatal bad (executePromptWithGemini env prompt inp)"
  shows "fatal bad (run_tests env prompt goal n index tcs results)"
proof (induction tcs arbitrary: index results)
  case Nil
  show ?case by (simp add: quiet_fatal quiet_return)
next
  case (Cons tc tcs)
  show ?case
    unfolding run_tests.simps
    by (intro fatal_bindM quiet_fatal quiet_lift quiet_sendLog quiet_judgeWithClaude
        assms Cons)
qed

lemma fatal_run_optimized:
  assumes "\<And>p a b c d r. \<not> bad (p, Judge a b c d, r)"
    and "\<And>template inp. fatal bad (executePromptWithGemini env template inp)"
  shows "fatal bad (run_optimized env optimized goal tcs results)"
proof (induction tcs arbitrary: results)
  case Nil
  show ?case by (simp add: quiet_fatal quiet_return)
next
  case (Cons tc tcs)
  show ?case
    unfolding run_optimized.simps
    by (intro fatal_bindM quiet_fatal quiet_lift quiet_sendLog quiet_judgeWithClaude
        assms Cons)
qed

lemma fatal_dataset_phase:
  assumes "\<And>p a b c r. \<not> bad (p, Generate_rubric_cases a b c, r)"
  shows "fatal bad (dataset_phase env prompt goal name rubric now)"
  unfolding dataset_phase_def
  by (intro quiet_fatal quiet_bindM quiet_sendLog quiet_lift quiet_return
      quiet_generateSyntheticDataset_rubric assms)

lemma fatal_test_phase:
  assumes "\<And>p a b c d r. \<not> bad (p, Judge a b c d, r)"
    and "\<And>inp. fatal bad (executePromptWithGemini env prompt inp)"
  shows "fatal bad (test_phase env prompt goal testCases)"
  unfolding test_phase_def
  by (intro fatal_bindM fatal_run_tests assms quiet_fatal quiet_sendLog quiet_lift quiet_return)

lemma fatal_optimize_phase:
  assumes "\<And>p a b c d r. \<not> bad (p, Judge a b c d, r)"
    and "\<And>template inp. fatal bad (executePromptWithGemini env template inp)"
    and "fatal bad (generateOptimizedPrompt env prompt failed goal rubric)"
  shows "fatal bad (optimize_phase env prompt goal rubric testCases failed)"
proof (cases "failed = []")
  case True
  then show ?thesis
    unfolding optimize_phase_def
    by (simp add: quiet_fatal quiet_bindM quiet_sendLog quiet_return)
next
  case False
  then show ?thesis
    unfolding optimize_phase_def Let_def
    apply (simp only: if_True simp_thms)
    apply (intro fatal_bindM fatal_run_optimized assms)
    apply (rule quiet_fatal quiet_sendLog quiet_lift quiet_return)+
    done
qed

lemma fatal_case_prod3:
  assumes "\<And>a b c. fatal bad (f a b c)"
  shows "fatal bad (case x of (a, b, c) \<Rightarrow> f a b c)"
  using assms by (cases x) auto

lemma fatal_optimize_steps:
  assumes "\<And>p a b c r. \<not> bad (p, Generate_rubric_cases a b c, r)"
    and "\<And>p a b c d r. \<not> bad (p, Judge a b c d, r)"
    and "\<And>template inp. fatal bad (executePromptWithGemini env template inp)"
    and "\<And>failed. fatal bad (generateOptimizedPrompt env prompt failed goal rubric)"
  shows "fatal bad (optimize_steps env prompt goal name rubric now)"
  unfolding optimize_steps_def
  apply (intro fatal_bindM fatal_case_prod3 fatal_dataset_phase fatal_test_phase
      fatal_optimize_phase assms)
  apply (rule quiet_fatal quiet_get_logs quiet_return)+
  done

subsection \<open>The handlers\<close>

lemma filter_complete_logs [simp]: "filter is_complete (map Log_event ls) = []"
  by (induction ls) auto

lemma filter_error_logs [simp]: "filter is_error (map Log_event ls) = []"
  by (induction ls) auto

lemma optimize_handler_invalid:
  assumes "\<not> valid_request env prompt goal name"
  shows "calls (snd (optimize_handler env prompt goal name rubric now s)) = calls s"
  using assms
  by (auto simp: valid_request_def optimize_handler_def try_catch_def bindM_sendLog text_converts_def return_def)

lemma optimize_handler_returned:
  assumes "valid_request env prompt goal name"
    and "optimize_steps env prompt goal name rubric now s = (Inr ev, s1)"
  shows "optimize_handler env prompt goal name rubric now s = (Inr ev, s1)"
  using assms by (simp add: valid_request_def optimize_handler_def try_catch_def)

lemma optimize_handler_caught:
  assumes "valid_request env prompt goal name"
    and "optimize_steps env prompt goal name rubric now s = (Inl e, s1)"
  shows "\<exists>l. optimize_handler env prompt goal name rubric now s =
           (Inr (Error_event ''Failed to optimize prompt'' (Some [M e]) (Some (logs s1 @ [l]))),
            s1\<lparr>logs := logs s1 @ [l]\<rparr>)"
  using assms
  by (simp add: valid_request_def optimize_handler_def try_catch_def bindM_sendLog text_converts_def
      bindM_get_logs return_def)

lemma optimize_handler_fatal:
  assumes "fatal bad (optimize_steps env prompt goal name rubric now)"
    and "c \<in> set (calls (snd (optimize_handler env prompt goal name rubric now (initial w))))"
    and "bad c"
  shows "filter is_complete (POST_optimize env prompt goal name rubric now w) = []
         \<and> is_error (last (POST_optimize env prompt goal name rubric now w))"
proof (cases "valid_request env prompt goal name")
  case False
  from optimize_handler_invalid [OF False] assms(2) show ?thesis
    by (simp add: initial_def)
next
  case True
  obtain r s1 where steps: "optimize_steps env prompt goal name rubric now (initial w) = (r, s1)"
    by (cases "optimize_steps env prompt goal name rubric now (initial w)")
  show ?thesis
  proof (cases r)
    case (Inr ev)
    with steps assms(1) have "filter bad (calls s1) = filter bad (calls (initial w))"
      by (metis fatal_def fst_conv snd_conv)
    then have "filter bad (calls s1) = []" by (simp add: initial_def)
    moreover from optimize_handler_returned [OF True] steps Inr assms(2)
    have "c \<in> set (calls s1)" by simp
    ultimately show ?thesis using assms(3) by (simp add: filter_empty_conv)
  next
    case (Inl e)
    with steps optimize_handler_caught [OF True] obtain l where
      "optimize_handler env prompt goal name rubric now (initial w) =
         (Inr (Error_event ''Failed to optimize prompt'' (Some [M e]) (Some (logs s1 @ [l]))),
          s1\<lparr>logs := logs s1 @ [l]\<rparr>)"
      by blast
    then show ?thesis by (simp add: POST_optimize_def stream_of_def)
  qed
qed

section \<open>Evaluation Runner\<close>

lemmas run_simps =
  POST_optimize_def optimize_handler_def optimize_steps_def dataset_phase_def test_phase_def
  optimize_phase_def stream_of_def initial_def
  try_catch_def bindM_def sendLog_def text_converts_def converts_def interpolate_def get_logs_def return_def throw_def lift_def call_def
  generateSyntheticDataset_rubric_def match_array_def match_object_def match_span_def
  or_else_def parse_def input_of_def executePromptWithGemini_def judgeWithClaude_def
  record_result_def failed_results_def opt_field_def originalPassRate_def js_div_def
  render_def placeholder_def replaceFrom.simps Let_def

lemmas scenario_simps =
  parse_table_def one_case_text_def one_case_def verdict_pass_def verdict_pass_text_def
  eval_case_text_def eval_case_def verdict_fail_text_def verdict_fail_def

lemmas eval_simps =
  POST_evaluation_def evaluation_handler_def evaluation_steps_def generate_step_def
  evaluate_step_def improve_step_def stream_of_def initial_def
  try_catch_def bindM_def sendLog_def text_converts_def converts_def interpolate_def get_logs_def return_def throw_def lift_def call_def step_def
  generateSyntheticDataset_def match_array_def match_object_def match_span_def
  or_else_def parse_def input_of_def runPrompt_def evaluateTestCase_def scoreFactuality_def
  scoreBattle_def scoreTone_def promptType_of_def js_or_def getImprovedPrompts_def
  opt_field_def failing_def passing_def summarize_def js_div_def no_scores_def
  lastDigit_def trim_def is_space_def fixed_digits_def digit_char_def
  render_def placeholder_def replaceFrom.simps Let_def

lemma executePromptWithGemini_fallback:
  assumes "gemini env (Execute (render prompt inp)) (world s) = (Throws, w1)"
    and "groq env (Execute (render prompt inp)) w1 = (r, w2)"
  shows "fst (executePromptWithGemini env prompt inp s) =
           (case r of Throws \<Rightarrow> Inl ProviderFailure | No_text \<Rightarrow> Inr [] | Text t \<Rightarrow> Inr t)"
    and "calls (snd (executePromptWithGemini env prompt inp s)) =
           calls s @ [(Gemini, Execute (render prompt inp), Throws),
                      (Groq, Execute (render prompt inp), r)]"
  using assms
  by (simp_all add: executePromptWithGemini_def try_catch_def bindM_def call_def return_def
      or_else_def Let_def split: reply.splits)

text \<open>
  C1, as the code has it. A completion that fails on the fallback provider as
  well is not recorded as an empty, zero-scored result: the exception leaves the
  loop, the run ends with an \<^verbatim>\<open>error\<close> record and no \<^verbatim>\<open>complete\<close> record is
  written. When only the primary provider fails, the output is the text of the
  fallback provider; when both fail, the completion throws, after the two
  calls.
\<close>

theorem completion_failure_ends_run:
  "((Groq, Execute q, Throws)
       \<in> set (calls (snd (optimize_handler env prompt goal name rubric now (initial w)))) \<longrightarrow>
     filter is_complete (POST_optimize env prompt goal name rubric now w) = []
     \<and> is_error (last (POST_optimize env prompt goal name rubric now w)))
   \<and> (gemini env1 (Execute (render p1 i1)) (world s1) = (Throws, w1) \<longrightarrow>
      groq env1 (Execute (render p1 i1)) w1 = (Text t, w1') \<longrightarrow>
      fst (executePromptWithGemini env1 p1 i1 s1) = Inr t)
   \<and> (gemini env2 (Execute (render p2 i2)) (world s2) = (Throws, w2) \<longrightarrow>
      groq env2 (Execute (render p2 i2)) w2 = (Throws, w2') \<longrightarrow>
      fst (executePromptWithGemini env2 p2 i2 s2) = Inl ProviderFailure
      \<and> calls (snd (executePromptWithGemini env2 p2 i2 s2)) =
          calls s2 @ [(Gemini, Execute (render p2 i2), Throws),
                      (Groq, Execute (render p2 i2), Throws)])"
proof (intro conjI impI)
  assume c: "(Groq, Execute q, Throws)
    \<in> set (calls (snd (optimize_handler env prompt goal name rubric now (initial w))))"
  have "fatal completion_failed (optimize_steps env prompt goal name rubric now)"
    by (intro fatal_optimize_steps fatal_executePromptWithGemini quiet_fatal
        quiet_generateOptimizedPrompt) simp_all
  from optimize_handler_fatal [OF this c]
  show "filter is_complete (POST_optimize env prompt goal name rubric now w) = []"
    and "is_error (last (POST_optimize env prompt goal name rubric now w))"
    by simp_all
next
  assume "gemini env1 (Execute (render p1 i1)) (world s1) = (Throws, w1)"
    and "groq env1 (Execute (render p1 i1)) w1 = (Text t, w1')"
  then show "fst (executePromptWithGemini env1 p1 i1 s1) = Inr t"
    by (simp add: executePromptWithGemini_fallback)
next
  assume "gemini env2 (Execute (render p2 i2)) (world s2) = (Throws, w2)"
    and "groq env2 (Execute (render p2 i2)) w2 = (Throws, w2')"
  then show "fst (executePromptWithGemini env2 p2 i2 s2) = Inl ProviderFailure"
    and "calls (snd (executePromptWithGemini env2 p2 i2 s2)) =
          calls s2 @ [(Gemini, Execute (render p2 i2), Throws),
                      (Groq, Execute (render p2 i2), Throws)]"
    by (simp_all add: executePromptWithGemini_fallback)
qed

theorem completion_failure_ends_run_witness:
  "(Groq, Execute ''Answer: 2+2?'', Throws)
      \<in> set (calls (snd (optimize_handler both_down ''Answer: {{input}}'' ''answer'' ''demo''
                 (Some [''must state 4'']) 0 (initial ()))))
   \<and> filter is_complete (POST_optimize both_down ''Answer: {{input}}'' ''answer'' ''demo''
        (Some [''must state 4'']) 0 ()) = []
   \<and> is_error (last (POST_optimize both_down ''Answer: {{input}}'' ''answer'' ''demo''
        (Some [''must state 4'']) 0 ()))
   \<and> gemini primary_down (Execute (render ''Answer: {{input}}'' ''2+2?'')) (world (initial ()))
        = (Throws, ())
   \<and> groq primary_down (Execute (render ''Answer: {{input}}'' ''2+2?'')) () = (Text ''fallback text'', ())
   \<and> fst (executePromptWithGemini primary_down ''Answer: {{input}}'' ''2+2?'' (initial ()))
        = Inr ''fallback text''
   \<and> recorded_outputs (last (POST_optimize primary_down ''Answer: {{input}}'' ''answer'' ''demo''
        (Some [''must state 4'']) 0 ())) = [''fallback text'']
   \<and> gemini both_down (Execute (render ''Answer: {{input}}'' ''2+2?'')) (world (initial ()))
        = (Throws, ())
   \<and> groq both_down (Execute (render ''Answer: {{input}}'' ''2+2?'')) () = (Throws, ())
   \<and> fst (executePromptWithGemini both_down ''Answer: {{input}}'' ''2+2?'' (initial ()))
        = Inl ProviderFailure
   \<and> calls (snd (executePromptWithGemini both_down ''Answer: {{input}}'' ''2+2?'' (initial ()))) =
        [(Gemini, Execute ''Answer: 2+2?'', Throws), (Groq, Execute ''Answer: 2+2?'', Throws)]"
  using completion_failure_ends_run
    [of "''Answer: 2+2?''" both_down "''Answer: {{input}}''" "''answer''" "''demo''"
        "Some [''must state 4'']" 0 "()"
        primary_down "''Answer: {{input}}''" "''2+2?''" "initial ()" "()" "''fallback text''" "()"
        both_down "''Answer: {{input}}''" "''2+2?''" "initial ()" "()" "()"]
  by (simp add: run_simps scenario_simps both_down_def primary_down_def)

text \<open>The claim as the specification states it fails: with both providers down
  for the completion of the only test case, the stream has no \<^verbatim>\<open>complete\<close>
  record, hence no recorded result, and ends with an \<^verbatim>\<open>error\<close> record.\<close>

theorem completion_failure_counterexample:
  "filter is_complete (POST_optimize both_down ''Answer: {{input}}'' ''answer'' ''demo''
      (Some [''must state 4'']) 0 ()) = []
   \<and> is_error (last (POST_optimize both_down ''Answer: {{input}}'' ''answer'' ''demo''
      (Some [''must state 4'']) 0 ()))
   \<and> calls (snd (optimize_handler both_down ''Answer: {{input}}'' ''answer'' ''demo''
      (Some [''must state 4'']) 0 (initial ()))) =
       [(Gemini, Generate_rubric_cases ''Answer: {{input}}'' ''answer'' [''must state 4''], Throws),
        (Groq, Generate_rubric_cases ''Answer: {{input}}'' ''answer'' [''must state 4''],
           Text one_case_text),
        (Gemini, Execute ''Answer: 2+2?'', Throws),
        (Groq, Execute ''Answer: 2+2?'', Throws)]"
  by (simp add: run_simps scenario_simps both_down_def)

section \<open>Test-Case Generator\<close>

lemma generateSyntheticDataset_attempts:
  assumes "gemini env (Generate_cases prompt) (world s) = (r1, w1)"
    and "groq env (Generate_cases prompt) w1 = (r2, w2)"
  shows "fst (generateSyntheticDataset env prompt s) =
           (case attempt env ''Failed to parse Gemini response as JSON'' r1 of
              Inr v \<Rightarrow> Inr v
            | Inl e \<Rightarrow> attempt env ''Failed to generate synthetic dataset with both Gemini and Groq'' r2)"
    and "calls (snd (generateSyntheticDataset env prompt s)) =
           calls s @
           (case attempt env ''Failed to parse Gemini response as JSON'' r1 of
              Inr v \<Rightarrow> [(Gemini, Generate_cases prompt, r1)]
            | Inl e \<Rightarrow> [(Gemini, Generate_cases prompt, r1), (Groq, Generate_cases prompt, r2)])"
  using assms
  by (auto simp: generateSyntheticDataset_def attempt_def try_catch_def bindM_def call_def
      return_def throw_def parse_def or_else_def
      split: reply.splits option.splits sum.splits)

lemma generateSyntheticDataset_rubric_attempts:
  assumes "gemini env (Generate_rubric_cases prompt goal criteria) (world s) = (r1, w1)"
    and "groq env (Generate_rubric_cases prompt goal criteria) w1 = (r2, w2)"
  shows "fst (generateSyntheticDataset_rubric env prompt goal (Some criteria) s) =
           (case attempt env ''Failed to parse Gemini response'' r1 of
              Inr v \<Rightarrow> Inr v
            | Inl e \<Rightarrow> attempt env ''Failed to generate test cases with both Gemini and Groq'' r2)"
    and "calls (snd (generateSyntheticDataset_rubric env prompt goal (Some criteria) s)) =
           calls s @
           (case attempt env ''Failed to parse Gemini response'' r1 of
              Inr v \<Rightarrow> [(Gemini, Generate_rubric_cases prompt goal criteria, r1)]
            | Inl e \<Rightarrow> [(Gemini, Generate_rubric_cases prompt goal criteria, r1),
                         (Groq, Generate_rubric_cases prompt goal criteria, r2)])"
  using assms
  by (auto simp: generateSyntheticDataset_rubric_def attempt_def try_catch_def bindM_def call_def
      return_def throw_def parse_def or_else_def
      split: reply.splits option.splits sum.splits)

lemma generateSyntheticDataset_logs:
  "generateSyntheticDataset env prompt (s\<lparr>logs := l\<rparr>) =
     (fst (generateSyntheticDataset env prompt s),
      (snd (generateSyntheticDataset env prompt s))\<lparr>logs := l\<rparr>)"
  by (auto simp: generateSyntheticDataset_def try_catch_def bindM_def call_def
      return_def throw_def parse_def
      split: prod.splits reply.splits option.splits sum.splits)

lemma generateSyntheticDataset_rubric_logs:
  "generateSyntheticDataset_rubric env prompt goal rubric (s\<lparr>logs := l\<rparr>) =
     (fst (generateSyntheticDataset_rubric env prompt goal rubric s),
      (snd (generateSyntheticDataset_rubric env prompt goal rubric s))\<lparr>logs := l\<rparr>)"
  by (auto simp: generateSyntheticDataset_rubric_def try_catch_def bindM_def call_def
      return_def throw_def parse_def
      split: prod.splits reply.splits option.splits sum.splits)

lemma generate_step_fails:
  assumes "fst (generateSyntheticDataset env prompt s) = Inl e"
  shows "fst (generate_step env prompt s) = Inl e"
proof -
  obtain s1 where g: "generateSyntheticDataset env prompt s = (Inl e, s1)"
    using assms by (cases "generateSyntheticDataset env prompt s") auto
  show ?thesis
    by (simp add: generate_step_def bindM_def sendLog_def text_converts_def converts_def interpolate_def generateSyntheticDataset_logs g)
qed

lemma dataset_phase_fails:
  assumes "fst (generateSyntheticDataset_rubric env prompt goal rubric s) = Inl e"
  shows "fst (dataset_phase env prompt goal name rubric now s) = Inl e"
proof -
  obtain s1 where g: "generateSyntheticDataset_rubric env prompt goal rubric s = (Inl e, s1)"
    using assms by (cases "generateSyntheticDataset_rubric env prompt goal rubric s") auto
  show ?thesis
    by (simp add: dataset_phase_def bindM_def sendLog_def text_converts_def converts_def interpolate_def generateSyntheticDataset_rubric_logs g)
qed

lemma evaluation_handler_caught:
  assumes "prompt \<noteq> []" and "GEMINI_API_KEY env"
    and "evaluation_steps env prompt s = (Inl e, s1)"
  shows "\<exists>l. evaluation_handler env prompt s =
           (Inr (Error_event ''Failed to run Braintrust evaluation'' (Some [M e])
                   (Some (logs s1 @ [l]))),
            s1\<lparr>logs := logs s1 @ [l]\<rparr>)"
  using assms
  by (simp add: evaluation_handler_def try_catch_def bindM_sendLog text_converts_def bindM_get_logs return_def)

lemma evaluation_handler_returned:
  assumes "prompt \<noteq> []" and "GEMINI_API_KEY env"
    and "evaluation_steps env prompt s = (Inr ev, s1)"
  shows "evaluation_handler env prompt s = (Inr ev, s1)"
  using assms by (simp add: evaluation_handler_def try_catch_def)

lemma evaluation_handler_invalid:
  assumes "\<not> (prompt \<noteq> [] \<and> GEMINI_API_KEY env)"
  shows "\<exists>m l. evaluation_handler env prompt s =
           (Inr (Error_event m None None), s\<lparr>logs := logs s @ [l]\<rparr>)"
  using assms
  by (auto simp: evaluation_handler_def try_catch_def bindM_sendLog text_converts_def return_def)

lemma evaluation_generator_fails:
  assumes "fst (generateSyntheticDataset env prompt (initial w)) = Inl e"
  shows "filter is_complete (POST_evaluation env prompt w) = []
         \<and> is_error (last (POST_evaluation env prompt w))"
proof (cases "prompt \<noteq> [] \<and> GEMINI_API_KEY env")
  case False
  from evaluation_handler_invalid [OF False, of "initial w"] show ?thesis
    by (auto simp: POST_evaluation_def stream_of_def)
next
  case True
  from generate_step_fails [OF assms]
  obtain s2 where "generate_step env prompt (initial w) = (Inl e, s2)"
    by (cases "generate_step env prompt (initial w)") auto
  then have "evaluation_steps env prompt (initial w) = (Inl e, s2)"
    by (simp add: evaluation_steps_def bindM_Inl)
  with True evaluation_handler_caught [of prompt env "initial w" e s2] show ?thesis
    by (auto simp: POST_evaluation_def stream_of_def)
qed

text \<open>
  C5, as the code has it. The generator makes of the primary provider's reply
  what \<open>attempt\<close> says, and on any failure of that attempt does the same with
  the fallback provider's reply: it fails only when both attempts fail, and it
  returns whatever the parser returns, with no check of the elements. When
  the generator fails, the stream ends with an \<^verbatim>\<open>error\<close> record and has no
  \<^verbatim>\<open>complete\<close> record.
\<close>

theorem generator_fails_when_both_attempts_fail:
  "(gemini env (Generate_cases prompt) (world s) = (r1, w1) \<longrightarrow>
    groq env (Generate_cases prompt) w1 = (r2, w2) \<longrightarrow>
    fst (generateSyntheticDataset env prompt s) =
      (case attempt env ''Failed to parse Gemini response as JSON'' r1 of
         Inr v \<Rightarrow> Inr v
       | Inl e \<Rightarrow> attempt env ''Failed to generate synthetic dataset with both Gemini and Groq'' r2))
   \<and> (fst (generateSyntheticDataset env' prompt' (initial w')) = Inl e' \<longrightarrow>
      filter is_complete (POST_evaluation env' prompt' w') = []
      \<and> is_error (last (POST_evaluation env' prompt' w')))"
  using generateSyntheticDataset_attempts(1) [of env prompt s r1 w1 r2 w2]
    evaluation_generator_fails [of env' prompt' w' e']
  by blast

theorem generator_fails_when_both_attempts_fail_witness:
  "gemini no_cases (Generate_cases ''Answer: {{input}}'') (world (initial ()))
      = (Text ''I cannot help with that.'', ())
   \<and> groq no_cases (Generate_cases ''Answer: {{input}}'') () = (Text ''Sorry.'', ())
   \<and> fst (generateSyntheticDataset no_cases ''Answer: {{input}}'' (initial ()))
      = Inl (Error ''Failed to generate synthetic dataset with both Gemini and Groq'')
   \<and> filter is_complete (POST_evaluation no_cases ''Answer: {{input}}'' ()) = []
   \<and> is_error (last (POST_evaluation no_cases ''Answer: {{input}}'' ()))"
  using generator_fails_when_both_attempts_fail
    [of no_cases "''Answer: {{input}}''" "initial ()" "Text ''I cannot help with that.''" "()"
        "Text ''Sorry.''" "()" no_cases "''Answer: {{input}}''" "()"
        "Error ''Failed to generate synthetic dataset with both Gemini and Groq''"]
  by (simp add: no_cases_def attempt_def match_array_def match_span_def initial_def)

text \<open>The claim as the specification states it fails twice at one input: the
  primary provider's response has no bracketed part and the generator does
  not fail, and the array it returns has an element without \<^verbatim>\<open>input\<close>.\<close>

theorem generator_shape_counterexample:
  "gemini shapeless (Generate_cases ''Answer: {{input}}'') () = (Text ''No test cases today.'', ())
   \<and> match_array ''No test cases today.'' = None
   \<and> fst (generateSyntheticDataset shapeless ''Answer: {{input}}'' (initial ()))
       = Inr (JArr [JObj []])
   \<and> input_of (JObj []) = Inl TypeError"
  by (simp add: shapeless_def generateSyntheticDataset_def try_catch_def bindM_def call_def
      return_def throw_def parse_def or_else_def match_array_def match_span_def initial_def
      input_of_def)

text \<open>
  C6, as the code has it. Generation is attempted on the primary provider and,
  when that attempt fails for any reason (the provider fails, the text has no
  bracketed part, the bracketed part does not parse), once more on the fallback
  provider with the same prompt; there is no third call.
\<close>

theorem generation_falls_back_on_any_failure:
  "(gemini env (Generate_rubric_cases prompt goal criteria) (world s) = (r1, w1) \<longrightarrow>
    groq env (Generate_rubric_cases prompt goal criteria) w1 = (r2, w2) \<longrightarrow>
    calls (snd (generateSyntheticDataset_rubric env prompt goal (Some criteria) s)) =
      calls s @
      (case attempt env ''Failed to parse Gemini response'' r1 of
         Inr v \<Rightarrow> [(Gemini, Generate_rubric_cases prompt goal criteria, r1)]
       | Inl e \<Rightarrow> [(Gemini, Generate_rubric_cases prompt goal criteria, r1),
                    (Groq, Generate_rubric_cases prompt goal criteria, r2)]))
   \<and> (gemini env' (Generate_cases prompt') (world s') = (r1', w1') \<longrightarrow>
      groq env' (Generate_cases prompt') w1' = (r2', w2') \<longrightarrow>
      calls (snd (generateSyntheticDataset env' prompt' s')) =
        calls s' @
        (case attempt env' ''Failed to parse Gemini response as JSON'' r1' of
           Inr v \<Rightarrow> [(Gemini, Generate_cases prompt', r1')]
         | Inl e \<Rightarrow> [(Gemini, Generate_cases prompt', r1'), (Groq, Generate_cases prompt', r2')]))"
  using generateSyntheticDataset_rubric_attempts(2) [of env prompt goal criteria s r1 w1 r2 w2]
    generateSyntheticDataset_attempts(2) [of env' prompt' s' r1' w1' r2' w2']
  by blast

theorem generation_falls_back_on_any_failure_witness:
  "gemini primary_down (Generate_rubric_cases ''Answer: {{input}}'' ''answer'' [''must state 4''])
      (world (initial ())) = (Throws, ())
   \<and> groq primary_down (Generate_rubric_cases ''Answer: {{input}}'' ''answer'' [''must state 4''])
      () = (Text one_case_text, ())
   \<and> calls (snd (generateSyntheticDataset_rubric primary_down ''Answer: {{input}}'' ''answer''
        (Some [''must state 4'']) (initial ()))) =
       [(Gemini, Generate_rubric_cases ''Answer: {{input}}'' ''answer'' [''must state 4''], Throws),
        (Groq, Generate_rubric_cases ''Answer: {{input}}'' ''answer'' [''must state 4''],
           Text one_case_text)]
   \<and> gemini no_cases (Generate_cases ''Answer: {{input}}'') (world (initial ()))
      = (Text ''I cannot help with that.'', ())
   \<and> groq no_cases (Generate_cases ''Answer: {{input}}'') () = (Text ''Sorry.'', ())
   \<and> calls (snd (generateSyntheticDataset no_cases ''Answer: {{input}}'' (initial ()))) =
       [(Gemini, Generate_cases ''Answer: {{input}}'', Text ''I cannot help with that.''),
        (Groq, Generate_cases ''Answer: {{input}}'', Text ''Sorry.'')]"
  using generation_falls_back_on_any_failure
    [of primary_down "''Answer: {{input}}''" "''answer''" "[''must state 4'']" "initial ()"
        Throws "()" "Text one_case_text" "()"
        no_cases "''Answer: {{input}}''" "initial ()" "Text ''I cannot help with that.''" "()"
        "Text ''Sorry.''" "()"]
  by (simp add: primary_down_def no_cases_def attempt_def match_array_def match_span_def
      initial_def)

text \<open>The claim as the specification states it fails: the primary provider
  answers, its text has no bracketed part, and the same request goes to the
  fallback provider, whose test case the generator returns.\<close>

theorem generation_retry_counterexample:
  "gemini talkative_primary
      (Generate_rubric_cases ''Answer: {{input}}'' ''answer'' [''must state 4'']) ()
      = (Text ''Sure! Here are some ideas.'', ())
   \<and> calls (snd (generateSyntheticDataset_rubric talkative_primary ''Answer: {{input}}'' ''answer''
        (Some [''must state 4'']) (initial ()))) =
       [(Gemini, Generate_rubric_cases ''Answer: {{input}}'' ''answer'' [''must state 4''],
           Text ''Sure! Here are some ideas.''),
        (Groq, Generate_rubric_cases ''Answer: {{input}}'' ''answer'' [''must state 4''],
           Text one_case_text)]
   \<and> fst (generateSyntheticDataset_rubric talkative_primary ''Answer: {{input}}'' ''answer''
        (Some [''must state 4'']) (initial ())) = Inr one_case"
  by (simp add: talkative_primary_def generateSyntheticDataset_rubric_def try_catch_def bindM_def
      call_def return_def throw_def parse_def or_else_def match_array_def match_span_def
      initial_def scenario_simps)

section \<open>Judge, rubric variant\<close>

lemma judgeWithClaude_verdict:
  assumes "anthropic env (Judge goal inp out criteria) (world s) = (r, w1)"
  shows "fst (judgeWithClaude env inp out (Some (JArr criteria)) goal s) =
           (if \<not> list_all stringable criteria then Inl TypeError
            else if r = Throws then Inl ProviderFailure
            else case match_object (reply_text r ''{}'') of
                   None \<Rightarrow> Inr (parse_failure_verdict criteria)
                 | Some m \<Rightarrow>
                     (case JSON_parse env m of None \<Rightarrow> Inl SyntaxError | Some v \<Rightarrow> Inr v))"
proof -
  have "list_all converts (map Some criteria) = list_all stringable criteria"
    by (induction criteria) (simp_all add: converts_def)
  with assms show ?thesis
    by (cases r)
       (simp_all add: judgeWithClaude_def interpolate_def bindM_def lift_def return_def call_def
        throw_def parse_def or_else_def split: option.splits)
qed

text \<open>
  C9, as the code has it. The rubric judge returns the JSON object parsed from
  the judge model's answer as it is: \<^verbatim>\<open>score\<close> and \<^verbatim>\<open>rubricResults\<close> are what
  the answer says, and the code does not compare them. Only when the answer
  has no braced part does the code make the verdict itself: score 0, every
  criterion of the rubric not passed. (The judge is asked when the criteria
  of the rubric have a string; otherwise the judge prompt throws.)
\<close>

theorem judge_returns_the_parsed_verdict:
  "(anthropic env (Judge goal inp out criteria) (world s) = (r, w1) \<longrightarrow>
    object_of env r = Some v \<longrightarrow>
    fst (judgeWithClaude env inp out (Some (JArr criteria)) goal s) =
      (if list_all stringable criteria then Inr v else Inl TypeError))
   \<and> (anthropic env' (Judge goal' inp' out' criteria') (world s') = (r', w1') \<longrightarrow>
      r' \<noteq> Throws \<longrightarrow>
      match_object (reply_text r' ''{}'') = None \<longrightarrow>
      fst (judgeWithClaude env' inp' out' (Some (JArr criteria')) goal' s') =
        (if list_all stringable criteria'
         then Inr (JObj [(''score'', JNum (Fin 0)),
                         (''failureReason'', JStr ''Failed to parse judge response''),
                         (''rubricResults'',
                            JArr (map (\<lambda>c. JObj [(''criterion'', c), (''passed'', JBool False)])
                                   criteria'))])
         else Inl TypeError))"
  using judgeWithClaude_verdict [of env goal inp out criteria s r w1]
    judgeWithClaude_verdict [of env' goal' inp' out' criteria' s' r' w1']
  by (auto simp: object_of_def parse_failure_verdict_def split: option.splits if_splits)

theorem judge_returns_the_parsed_verdict_witness:
  "anthropic lenient_judge (Judge ''answer'' ''2+2?'' ''5'' [JStr ''must state 4'']) (world (initial ()))
      = (Text (''Verdict: '' @ verdict_odd_text), ())
   \<and> object_of lenient_judge (Text (''Verdict: '' @ verdict_odd_text)) = Some verdict_odd
   \<and> list_all stringable [JStr ''must state 4'']
   \<and> fst (judgeWithClaude lenient_judge ''2+2?'' ''5'' (Some (JArr [JStr ''must state 4'']))
        ''answer'' (initial ())) = Inr verdict_odd
   \<and> anthropic silent_judge (Judge ''answer'' ''2+2?'' ''5'' [JStr ''must state 4'']) (world (initial ()))
      = (Text ''It looks fine to me.'', ())
   \<and> Text ''It looks fine to me.'' \<noteq> Throws
   \<and> match_object (reply_text (Text ''It looks fine to me.'') ''{}'') = None
   \<and> fst (judgeWithClaude silent_judge ''2+2?'' ''5'' (Some (JArr [JStr ''must state 4'']))
        ''answer'' (initial ())) =
        Inr (JObj [(''score'', JNum (Fin 0)),
                   (''failureReason'', JStr ''Failed to parse judge response''),
                   (''rubricResults'',
                      JArr [JObj [(''criterion'', JStr ''must state 4''),
                                  (''passed'', JBool False)]])])"
  using judge_returns_the_parsed_verdict
    [of lenient_judge "''answer''" "''2+2?''" "''5''" "[JStr ''must state 4'']" "initial ()"
        "Text (''Verdict: '' @ verdict_odd_text)" "()" verdict_odd
        silent_judge "''answer''" "''2+2?''" "''5''" "[JStr ''must state 4'']" "initial ()"
        "Text ''It looks fine to me.''" "()"]
  by (simp add: lenient_judge_def silent_judge_def object_of_def match_object_def match_span_def
      verdict_odd_text_def initial_def)

text \<open>The claim as the specification states it fails: the judge returns
  score 1 together with a criterion marked not passed.\<close>

theorem judge_score_counterexample:
  "fst (judgeWithClaude lenient_judge ''2+2?'' ''5'' (Some (JArr [JStr ''must state 4'']))
        ''answer'' (initial ())) = Inr verdict_odd
   \<and> get_field (Some verdict_odd) ''score'' = Inr (Some (JNum (Fin 1)))
   \<and> get_field (Some verdict_odd) ''rubricResults'' =
        Inr (Some (JArr [JObj [(''criterion'', JStr ''must state 4''), (''passed'', JBool False)]]))"
  by (simp add: lenient_judge_def judgeWithClaude_def interpolate_def converts_def bindM_def
      lift_def return_def call_def parse_def or_else_def match_object_def match_span_def
      verdict_odd_text_def verdict_odd_def initial_def)

section \<open>Summary of an empty run\<close>

lemma evaluation_of_no_cases:
  assumes "prompt \<noteq> []" and "GEMINI_API_KEY env"
    and "fst (generateSyntheticDataset env prompt (initial w)) = Inr (JArr [])"
  shows "is_complete (last (POST_evaluation env prompt w))
         \<and> filter is_error (POST_evaluation env prompt w) = []
         \<and> rates (last (POST_evaluation env prompt w)) = [''NaN'', ''NaN'']"
proof -
  obtain s1 where g: "generateSyntheticDataset env prompt (initial w) = (Inr (JArr []), s1)"
    using assms(3) by (cases "generateSyntheticDataset env prompt (initial w)") auto
  have "\<exists>s2. generate_step env prompt (initial w) = (Inr (JArr []), s2)"
    by (simp add: generate_step_def bindM_def sendLog_def text_converts_def converts_def interpolate_def generateSyntheticDataset_logs g
        lift_def return_def)
  then obtain s2 where 1: "generate_step env prompt (initial w) = (Inr (JArr []), s2)" ..
  have "\<exists>l s3. evaluation_steps env prompt (initial w) =
      (Inr (Complete_evaluation
         \<lparr>ev_prompt = prompt, ev_summary = summarize [], ev_results = [],
          improvedPrompts = JArr [], syntheticDataset = JArr [], ev_logs = l\<rparr>), s3)"
    by (simp add: evaluation_steps_def 1 evaluate_step_def improve_step_def
        failing_def bindM_def sendLog_def text_converts_def converts_def interpolate_def lift_def return_def get_logs_def Let_def)
  then obtain l s3 where 2: "evaluation_steps env prompt (initial w) =
      (Inr (Complete_evaluation
         \<lparr>ev_prompt = prompt, ev_summary = summarize [], ev_results = [],
          improvedPrompts = JArr [], syntheticDataset = JArr [], ev_logs = l\<rparr>), s3)"
    by blast
  from evaluation_handler_returned [OF assms(1,2) 2] show ?thesis
    by (simp add: POST_evaluation_def stream_of_def summarize_def passing_def failing_def
        js_div_def Let_def)
qed

lemma optimization_of_no_cases:
  assumes "valid_request env prompt goal name"
    and "fst (generateSyntheticDataset_rubric env prompt goal rubric (initial w)) = Inr (JArr [])"
  shows "is_complete (last (POST_optimize env prompt goal name rubric now w))
         \<and> filter is_error (POST_optimize env prompt goal name rubric now w) = []
         \<and> rates (last (POST_optimize env prompt goal name rubric now w)) = [''NaN'']"
proof -
  obtain s1 where g:
    "generateSyntheticDataset_rubric env prompt goal rubric (initial w) = (Inr (JArr []), s1)"
    using assms(2)
    by (cases "generateSyntheticDataset_rubric env prompt goal rubric (initial w)") auto
  have "\<exists>s2. dataset_phase env prompt goal name rubric now (initial w) = (Inr (JArr []), s2)"
    by (simp add: dataset_phase_def bindM_def sendLog_def text_converts_def converts_def interpolate_def generateSyntheticDataset_rubric_logs g
        lift_def return_def)
  then obtain s2 where
    1: "dataset_phase env prompt goal name rubric now (initial w) = (Inr (JArr []), s2)" ..
  have "\<exists>ev s3. optimize_steps env prompt goal name rubric now (initial w) =
      (Inr (Complete_optimization ev), s3) \<and> m_originalPassRate (o_metrics ev) = ''NaN''"
    by (simp add: optimize_steps_def 1 test_phase_def optimize_phase_def
        failed_results_def originalPassRate_def js_div_def
        bindM_def sendLog_def text_converts_def converts_def interpolate_def lift_def return_def get_logs_def Let_def)
  then obtain ev s3 where 2: "optimize_steps env prompt goal name rubric now (initial w) =
      (Inr (Complete_optimization ev), s3)" and 3: "m_originalPassRate (o_metrics ev) = ''NaN''"
    by blast
  from optimize_handler_returned [OF assms(1) 2] 3 show ?thesis
    by (simp add: POST_optimize_def stream_of_def)
qed

text \<open>
  C10. When the generator returns an empty list of test cases, a run of either
  route does not fail: its last record is \<^verbatim>\<open>complete\<close> and it has no \<^verbatim>\<open>error\<close>
  record; the rates of the summary are quotients by the number of results,
  zero here, and are rendered as the string \<^verbatim>\<open>NaN\<close>.
\<close>

theorem empty_dataset_gives_NaN:
  "(prompt \<noteq> [] \<longrightarrow> GEMINI_API_KEY env \<longrightarrow>
    fst (generateSyntheticDataset env prompt (initial w)) = Inr (JArr []) \<longrightarrow>
    is_complete (last (POST_evaluation env prompt w))
    \<and> filter is_error (POST_evaluation env prompt w) = []
    \<and> rates (last (POST_evaluation env prompt w)) = [''NaN'', ''NaN''])
   \<and> (valid_request env' prompt' goal name \<longrightarrow>
      fst (generateSyntheticDataset_rubric env' prompt' goal rubric (initial w')) = Inr (JArr []) \<longrightarrow>
      is_complete (last (POST_optimize env' prompt' goal name rubric now w'))
      \<and> filter is_error (POST_optimize env' prompt' goal name rubric now w') = []
      \<and> rates (last (POST_optimize env' prompt' goal name rubric now w')) = [''NaN''])"
  using evaluation_of_no_cases [of prompt env w]
    optimization_of_no_cases [of env' prompt' goal name rubric w' now]
  by blast

theorem empty_dataset_gives_NaN_witness:
  "''Answer: {{input}}'' \<noteq> []
   \<and> GEMINI_API_KEY empty_dataset
   \<and> fst (generateSyntheticDataset empty_dataset ''Answer: {{input}}'' (initial ())) = Inr (JArr [])
   \<and> is_complete (last (POST_evaluation empty_dataset ''Answer: {{input}}'' ()))
   \<and> filter is_error (POST_evaluation empty_dataset ''Answer: {{input}}'' ()) = []
   \<and> rates (last (POST_evaluation empty_dataset ''Answer: {{input}}'' ())) = [''NaN'', ''NaN'']
   \<and> valid_request empty_dataset ''Answer: {{input}}'' ''answer'' ''demo''
   \<and> fst (generateSyntheticDataset_rubric empty_dataset ''Answer: {{input}}'' ''answer''
        (Some [''must state 4'']) (initial ())) = Inr (JArr [])
   \<and> is_complete (last (POST_optimize empty_dataset ''Answer: {{input}}'' ''answer'' ''demo''
        (Some [''must state 4'']) 0 ()))
   \<and> filter is_error (POST_optimize empty_dataset ''Answer: {{input}}'' ''answer'' ''demo''
        (Some [''must state 4'']) 0 ()) = []
   \<and> rates (last (POST_optimize empty_dataset ''Answer: {{input}}'' ''answer'' ''demo''
        (Some [''must state 4'']) 0 ())) = [''NaN'']"
  using empty_dataset_gives_NaN
    [of "''Answer: {{input}}''" empty_dataset "()"
        empty_dataset "''Answer: {{input}}''" "''answer''" "''demo''" "Some [''must state 4'']" "()" 0]
  by (simp add: empty_dataset_def valid_request_def generateSyntheticDataset_def
      generateSyntheticDataset_rubric_def try_catch_def bindM_def call_def return_def parse_def
      or_else_def match_array_def match_span_def initial_def)

section \<open>Runs without failures\<close>

lemma optimize_steps_returns:
  assumes "optimize_steps env prompt goal name rubric now s0 = (Inr ev, s)"
  obtains testCases s1 results s2 optimized why chs e where
    "dataset_phase env prompt goal name rubric now s0 = (Inr testCases, s1)"
    "test_phase env prompt goal testCases s1 = (Inr results, s2)"
    "optimize_phase env prompt goal rubric testCases (failed_results results) s2
       = (Inr (optimized, why, chs), s)"
    "ev = Complete_optimization e"
    "o_originalResults e = results"
    "o_optimizedPrompt e = optimized"
    "o_changes e = chs"
proof -
  from assms obtain testCases s1 where
    1: "dataset_phase env prompt goal name rubric now s0 = (Inr testCases, s1)"
    and r1: "bindM (test_phase env prompt goal testCases) (\<lambda>results.
       bindM (optimize_phase env prompt goal rubric testCases (failed_results results))
       (\<lambda>(optimized, why, chs).
       bindM get_logs (\<lambda>l.
       return (Complete_optimization
       \<lparr>o_originalPrompt = prompt, o_optimizedPrompt = optimized,
        o_promptName = name @ ''-'' @ ''v'' @ show_nat now, o_goal = goal, o_rubric = rubric,
        o_originalResults = results,
        o_metrics = \<lparr>m_originalPassRate = originalPassRate results,
                     m_totalTests = length results,
                     m_failures = length (failed_results results)\<rparr>,
        o_reasoning = why, o_changes = chs, o_logs = l\<rparr>)))) s1 = (Inr ev, s)"
    unfolding optimize_steps_def by (rule bindM_returns)
  from r1 obtain results s2 where
    2: "test_phase env prompt goal testCases s1 = (Inr results, s2)"
    and r2: "bindM (optimize_phase env prompt goal rubric testCases (failed_results results))
       (\<lambda>(optimized, why, chs).
       bindM get_logs (\<lambda>l.
       return (Complete_optimization
       \<lparr>o_originalPrompt = prompt, o_optimizedPrompt = optimized,
        o_promptName = name @ ''-'' @ ''v'' @ show_nat now, o_goal = goal, o_rubric = rubric,
        o_originalResults = results,
        o_metrics = \<lparr>m_originalPassRate = originalPassRate results,
                     m_totalTests = length results,
                     m_failures = length (failed_results results)\<rparr>,
        o_reasoning = why, o_changes = chs, o_logs = l\<rparr>))) s2 = (Inr ev, s)"
    by (rule bindM_returns)
  from r2 obtain x s3 where
    3: "optimize_phase env prompt goal rubric testCases (failed_results results) s2 = (Inr x, s3)"
    and r3: "(case x of (optimized, why, chs) \<Rightarrow>
       bindM get_logs (\<lambda>l.
       return (Complete_optimization
       \<lparr>o_originalPrompt = prompt, o_optimizedPrompt = optimized,
        o_promptName = name @ ''-'' @ ''v'' @ show_nat now, o_goal = goal, o_rubric = rubric,
        o_originalResults = results,
        o_metrics = \<lparr>m_originalPassRate = originalPassRate results,
                     m_totalTests = length results,
                     m_failures = length (failed_results results)\<rparr>,
        o_reasoning = why, o_changes = chs, o_logs = l\<rparr>))) s3 = (Inr ev, s)"
    by (rule bindM_returns)
  obtain optimized why chs where x: "x = (optimized, why, chs)" by (cases x)
  from r3 x have "s3 = s" and "\<exists>e. ev = Complete_optimization e \<and> o_originalResults e = results
      \<and> o_optimizedPrompt e = optimized \<and> o_changes e = chs"
    by (auto simp: bindM_get_logs return_def)
  with 1 2 3 x that show thesis by blast
qed


lemma evaluation_steps_returns:
  assumes "evaluation_steps env prompt s0 = (Inr ev, s)"
  obtains testCases s1 results s2 improved s3 e where
    "generate_step env prompt s0 = (Inr testCases, s1)"
    "evaluate_step env prompt testCases s1 = (Inr results, s2)"
    "improve_step env prompt (failing results) s2 = (Inr improved, s3)"
    "calls s = calls s3"
    "ev = Complete_evaluation e"
    "ev_results e = results"
    "slice3 improved = Inr (improvedPrompts e)"
proof -
  from assms obtain testCases s1 where
    1: "generate_step env prompt s0 = (Inr testCases, s1)"
    and r1: "bindM (evaluate_step env prompt testCases) (\<lambda>results.
     bindM (improve_step env prompt (failing results)) (\<lambda>improved.
     let stats = summarize results in
     bindM (sendLog ''Evaluation complete'' Completed
              (Some [S ''Success rate: '', S (success_rate stats), S ''%''])) (\<lambda>_.
     bindM (lift (slice3 improved)) (\<lambda>firstThree.
     bindM get_logs (\<lambda>l.
     return (Complete_evaluation
       \<lparr>ev_prompt = prompt, ev_summary = stats, ev_results = results,
        improvedPrompts = firstThree, syntheticDataset = testCases, ev_logs = l\<rparr>)))))) s1
       = (Inr ev, s)"
    unfolding evaluation_steps_def by (rule bindM_returns)
  from r1 obtain results s2 where
    2: "evaluate_step env prompt testCases s1 = (Inr results, s2)"
    and r2: "bindM (improve_step env prompt (failing results)) (\<lambda>improved.
     let stats = summarize results in
     bindM (sendLog ''Evaluation complete'' Completed
              (Some [S ''Success rate: '', S (success_rate stats), S ''%''])) (\<lambda>_.
     bindM (lift (slice3 improved)) (\<lambda>firstThree.
     bindM get_logs (\<lambda>l.
     return (Complete_evaluation
       \<lparr>ev_prompt = prompt, ev_summary = stats, ev_results = results,
        improvedPrompts = firstThree, syntheticDataset = testCases, ev_logs = l\<rparr>))))) s2
       = (Inr ev, s)"
    by (rule bindM_returns)
  from r2 obtain improved s3 where
    3: "improve_step env prompt (failing results) s2 = (Inr improved, s3)"
    and r3: "(let stats = summarize results in
     bindM (sendLog ''Evaluation complete'' Completed
              (Some [S ''Success rate: '', S (success_rate stats), S ''%''])) (\<lambda>_.
     bindM (lift (slice3 improved)) (\<lambda>firstThree.
     bindM get_logs (\<lambda>l.
     return (Complete_evaluation
       \<lparr>ev_prompt = prompt, ev_summary = stats, ev_results = results,
        improvedPrompts = firstThree, syntheticDataset = testCases, ev_logs = l\<rparr>))))) s3
       = (Inr ev, s)"
    by (rule bindM_returns)
  from r3 have "calls s = calls s3 \<and> (\<exists>e. ev = Complete_evaluation e \<and> ev_results e = results
      \<and> slice3 improved = Inr (improvedPrompts e))"
    by (cases "slice3 improved")
       (auto simp: Let_def bindM_sendLog text_converts_def bindM_get_logs return_def throw_def)
  with 1 2 3 that show thesis by blast
qed

subsection \<open>The evaluation route, call by call\<close>

lemma quiet_generateSyntheticDataset:
  assumes "\<And>p a r. \<not> bad (p, Generate_cases a, r)"
  shows "quiet bad (generateSyntheticDataset env prompt)"
  unfolding generateSyntheticDataset_def
  by (auto intro!: quiet_rules quiet_call assms split: option.splits)

lemma quiet_runPrompt:
  assumes "\<And>p q r. \<not> bad (p, Execute q, r)"
  shows "quiet bad (runPrompt env prompt inp)"
  unfolding runPrompt_def
  by (auto intro!: quiet_rules quiet_call assms)

lemma quiet_scoreTone: "quiet optimizer_call (scoreTone env out t)"
  unfolding scoreTone_def Let_def
  by (auto intro!: quiet_rules quiet_call)

lemma quiet_scoreFactuality: "quiet optimizer_call (scoreFactuality env out ex md)"
  unfolding scoreFactuality_def Let_def
  by (auto intro!: quiet_rules quiet_call)

lemma quiet_scoreBattle: "quiet optimizer_call (scoreBattle env inp out ex md)"
  unfolding scoreBattle_def Let_def
  by (auto intro!: quiet_rules quiet_call)

lemma quiet_evaluateTestCase: "quiet optimizer_call (evaluateTestCase env testCase out)"
  unfolding evaluateTestCase_def Let_def
  by (auto intro!: quiet_rules quiet_scoreTone quiet_scoreFactuality quiet_scoreBattle)

lemma quiet_run_evaluations:
  "quiet optimizer_call (run_evaluations env prompt n index tcs results)"
proof (induction tcs arbitrary: index results)
  case Nil
  show ?case by (simp add: quiet_return)
next
  case (Cons tc tcs)
  show ?case
    unfolding run_evaluations.simps
    by (intro quiet_bindM quiet_lift quiet_sendLog quiet_runPrompt quiet_evaluateTestCase Cons)
       simp
qed

lemma quiet_generate_step: "quiet optimizer_call (generate_step env prompt)"
  unfolding generate_step_def
  by (intro quiet_bindM quiet_sendLog quiet_lift quiet_return quiet_generateSyntheticDataset) simp

lemma quiet_evaluate_step: "quiet optimizer_call (evaluate_step env prompt testCases)"
  unfolding evaluate_step_def
  by (intro quiet_bindM quiet_sendLog quiet_lift quiet_return quiet_run_evaluations)


lemma optimize_handler_invalid_event:
  assumes "\<not> valid_request env prompt goal name"
  shows "\<exists>m d l. optimize_handler env prompt goal name rubric now s =
           (Inr (Error_event m d None), s\<lparr>logs := logs s @ [l]\<rparr>)"
  using assms
  by (auto simp: valid_request_def optimize_handler_def try_catch_def bindM_sendLog text_converts_def return_def)

lemma quiet_filter:
  assumes "quiet bad m" and "m s = (r, s1)"
  shows "filter bad (calls s1) = filter bad (calls s)"
  using assms by (metis quiet_def snd_conv)

lemma fatal_filter:
  assumes "fatal bad m" and "m s = (Inr x, s1)"
  shows "filter bad (calls s1) = filter bad (calls s)"
  using assms by (metis fatal_def fst_conv snd_conv)

lemma optimization_without_failures:
  assumes complete: "is_complete (last (POST_optimize env prompt goal name rubric now w))"
    and nofail: "original_failures (last (POST_optimize env prompt goal name rubric now w)) = 0"
  shows "keeps_prompt prompt (last (POST_optimize env prompt goal name rubric now w))
         \<and> filter optimizer_call
             (calls (snd (optimize_handler env prompt goal name rubric now (initial w)))) = []"
proof (cases "valid_request env prompt goal name")
  case False
  from optimize_handler_invalid_event [OF False, of rubric now "initial w"] complete
  show ?thesis by (auto simp: POST_optimize_def stream_of_def)
next
  case True
  obtain r s where steps: "optimize_steps env prompt goal name rubric now (initial w) = (r, s)"
    by (cases "optimize_steps env prompt goal name rubric now (initial w)")
  show ?thesis
  proof (cases r)
    case (Inl e)
    with steps optimize_handler_caught [OF True, of rubric now "initial w" e s] complete
    show ?thesis by (auto simp: POST_optimize_def stream_of_def)
  next
    case (Inr ev)
    with steps have ret: "optimize_steps env prompt goal name rubric now (initial w) = (Inr ev, s)"
      by simp
    from optimize_handler_returned [OF True ret]
    have h: "optimize_handler env prompt goal name rubric now (initial w) = (Inr ev, s)" .
    then have last: "last (POST_optimize env prompt goal name rubric now w) = ev"
      by (simp add: POST_optimize_def stream_of_def)
    from ret obtain testCases s1 results s2 optimized why chs e where
      1: "dataset_phase env prompt goal name rubric now (initial w) = (Inr testCases, s1)"
      and 2: "test_phase env prompt goal testCases s1 = (Inr results, s2)"
      and 3: "optimize_phase env prompt goal rubric testCases (failed_results results) s2
                = (Inr (optimized, why, chs), s)"
      and ev: "ev = Complete_optimization e" "o_originalResults e = results"
        "o_optimizedPrompt e = optimized" "o_changes e = chs"
      by (rule optimize_steps_returns)
    from nofail last ev have none: "failed_results results = []" by simp
    with 3 have opt: "optimized = Some (JStr prompt)" "chs = Some (JArr [])" "calls s = calls s2"
      by (auto simp: optimize_phase_def bindM_sendLog text_converts_def return_def)
    have "fatal optimizer_call (dataset_phase env prompt goal name rubric now)"
      by (rule fatal_dataset_phase) simp
    from fatal_filter [OF this 1]
    have c1: "filter optimizer_call (calls s1) = []" by (simp add: initial_def)
    have "fatal optimizer_call (test_phase env prompt goal testCases)"
      by (intro fatal_test_phase quiet_fatal quiet_executePromptWithGemini) simp_all
    from fatal_filter [OF this 2] c1
    have "filter optimizer_call (calls s2) = []" by simp
    with opt ev last h show ?thesis by simp
  qed
qed

lemma evaluation_without_failures:
  assumes complete: "is_complete (last (POST_evaluation env prompt w))"
    and nofail: "original_failures (last (POST_evaluation env prompt w)) = 0"
  shows "keeps_prompt prompt (last (POST_evaluation env prompt w))
         \<and> filter optimizer_call (calls (snd (evaluation_handler env prompt (initial w)))) = []"
proof (cases "prompt \<noteq> [] \<and> GEMINI_API_KEY env")
  case False
  from evaluation_handler_invalid [OF False, of "initial w"] complete
  show ?thesis by (auto simp: POST_evaluation_def stream_of_def)
next
  case True
  then have v: "prompt \<noteq> []" "GEMINI_API_KEY env" by simp_all
  obtain r s where steps: "evaluation_steps env prompt (initial w) = (r, s)"
    by (cases "evaluation_steps env prompt (initial w)")
  show ?thesis
  proof (cases r)
    case (Inl e)
    with steps evaluation_handler_caught [OF v, of "initial w" e s] complete
    show ?thesis by (auto simp: POST_evaluation_def stream_of_def)
  next
    case (Inr ev)
    with steps have ret: "evaluation_steps env prompt (initial w) = (Inr ev, s)" by simp
    from evaluation_handler_returned [OF v ret]
    have h: "evaluation_handler env prompt (initial w) = (Inr ev, s)" .
    then have last: "last (POST_evaluation env prompt w) = ev"
      by (simp add: POST_evaluation_def stream_of_def)
    from ret obtain testCases s1 results s2 improved s3 e where
      1: "generate_step env prompt (initial w) = (Inr testCases, s1)"
      and 2: "evaluate_step env prompt testCases s1 = (Inr results, s2)"
      and 3: "improve_step env prompt (failing results) s2 = (Inr improved, s3)"
      and c: "calls s = calls s3"
      and ev: "ev = Complete_evaluation e" "ev_results e = results"
        "slice3 improved = Inr (improvedPrompts e)"
      by (rule evaluation_steps_returns)
    from nofail last ev have none: "failing results = []" by simp
    with 3 have imp: "improved = JArr []" "calls s3 = calls s2"
      by (auto simp: improve_step_def bindM_sendLog text_converts_def return_def)
    from quiet_filter [OF quiet_generate_step 1]
    have c1: "filter optimizer_call (calls s1) = []" by (simp add: initial_def)
    from quiet_filter [OF quiet_evaluate_step 2] c1
    have "filter optimizer_call (calls s2) = []" by simp
    with imp ev last h c show ?thesis by simp
  qed
qed

text \<open>
  C8. A run that completes with no failing result among the results of the
  original prompt has made no call of the Optimizer; in the optimization route
  its final record has the original prompt as optimized prompt and an empty
  list of changes, in the evaluation route an empty list of improved prompts.
\<close>

theorem no_failures_no_optimizer:
  "(is_complete (last (POST_optimize env prompt goal name rubric now w)) \<longrightarrow>
    original_failures (last (POST_optimize env prompt goal name rubric now w)) = 0 \<longrightarrow>
    keeps_prompt prompt (last (POST_optimize env prompt goal name rubric now w))
    \<and> filter optimizer_call
        (calls (snd (optimize_handler env prompt goal name rubric now (initial w)))) = [])
   \<and> (is_complete (last (POST_evaluation env' prompt' w')) \<longrightarrow>
      original_failures (last (POST_evaluation env' prompt' w')) = 0 \<longrightarrow>
      keeps_prompt prompt' (last (POST_evaluation env' prompt' w'))
      \<and> filter optimizer_call (calls (snd (evaluation_handler env' prompt' (initial w')))) = [])"
  using optimization_without_failures [of env prompt goal name rubric now w]
    evaluation_without_failures [of env' prompt' w']
  by blast

theorem no_failures_no_optimizer_witness:
  "is_complete (last (POST_optimize primary_down ''Answer: {{input}}'' ''answer'' ''demo''
      (Some [''must state 4'']) 0 ()))
   \<and> original_failures (last (POST_optimize primary_down ''Answer: {{input}}'' ''answer'' ''demo''
      (Some [''must state 4'']) 0 ())) = 0
   \<and> keeps_prompt ''Answer: {{input}}''
       (last (POST_optimize primary_down ''Answer: {{input}}'' ''answer'' ''demo''
          (Some [''must state 4'']) 0 ()))
   \<and> filter optimizer_call
       (calls (snd (optimize_handler primary_down ''Answer: {{input}}'' ''answer'' ''demo''
          (Some [''must state 4'']) 0 (initial ())))) = []
   \<and> is_complete (last (POST_evaluation good_run ''Answer: {{input}}'' ()))
   \<and> original_failures (last (POST_evaluation good_run ''Answer: {{input}}'' ())) = 0
   \<and> keeps_prompt ''Answer: {{input}}'' (last (POST_evaluation good_run ''Answer: {{input}}'' ()))
   \<and> filter optimizer_call
       (calls (snd (evaluation_handler good_run ''Answer: {{input}}'' (initial ())))) = []"
  using no_failures_no_optimizer
    [of primary_down "''Answer: {{input}}''" "''answer''" "''demo''" "Some [''must state 4'']" 0 "()"
        good_run "''Answer: {{input}}''" "()"]
  by (simp add: run_simps eval_simps scenario_simps primary_down_def good_run_def)

section \<open>Optimizer\<close>

lemma generateOptimizedPrompt_no_object:
  assumes "failureAnalysis failed = Inr analysis"
    and "anthropic env (Optimize prompt goal criteria analysis) (world s) = (r, w1)"
    and "r \<noteq> Throws"
    and "match_object (reply_text r ''{}'') = None"
  shows "fst (generateOptimizedPrompt env prompt failed goal (Some criteria) s)
           = Inl (Error ''Failed to generate optimization'')"
  using assms
  by (cases r)
     (simp_all add: generateOptimizedPrompt_def bindM_def lift_def return_def call_def throw_def
      or_else_def)

lemma getImprovedPrompts_defaults:
  assumes "anthropic env (Improve prompt failed) (world s) = (r, w1)"
    and "array_of env r = None"
  shows "fst (getImprovedPrompts env prompt failed s) =
           (if list_all converts (map e_expected failed) then Inr (JArr []) else Inl TypeError)"
proof (cases r)
  case Throws
  with assms show ?thesis
    by (simp add: getImprovedPrompts_def interpolate_def try_catch_def bindM_def call_def
        return_def)
next
  case No_text
  with assms show ?thesis
    by (simp add: getImprovedPrompts_def interpolate_def array_of_def try_catch_def bindM_def
        call_def return_def throw_def parse_def or_else_def split: option.splits)
next
  case (Text t)
  with assms show ?thesis
    by (simp add: getImprovedPrompts_def interpolate_def array_of_def try_catch_def bindM_def
        call_def return_def throw_def parse_def or_else_def split: option.splits)
qed

text \<open>The one-shot route: an Optimizer answer without a JSON array is the one
  call of the Optimizer in its run, and the run goes on to its end.\<close>

lemma proposals_unparsed_call: "proposals_unparsed env c \<Longrightarrow> optimizer_call c"
  by (cases "(env, c)" rule: proposals_unparsed.cases) simp_all

lemma not_among:
  assumes "filter optimizer_call cs = []" and "proposals_unparsed env c"
  shows "c \<notin> set cs"
  using assms proposals_unparsed_call [of env c] by (auto simp: filter_empty_conv)

lemma getImprovedPrompts_unparsed:
  assumes c: "c \<in> set (calls (snd (getImprovedPrompts env prompt failed s)))"
    and u: "proposals_unparsed env c"
    and q: "filter optimizer_call (calls s) = []"
  shows "fst (getImprovedPrompts env prompt failed s) = Inr (JArr [])"
proof -
  from not_among [OF q u] have n: "c \<notin> set (calls s)" .
  obtain r w1 where a: "anthropic env (Improve prompt failed) (world s) = (r, w1)"
    by (cases "anthropic env (Improve prompt failed) (world s)")
  show ?thesis
  proof (cases "list_all converts (map e_expected failed)")
    case False
    with c n show ?thesis
      by (simp add: getImprovedPrompts_def interpolate_def bindM_def)
  next
    case True
    with c n a have "c = (Anthropic, Improve prompt failed, r)"
      by (cases r)
         (auto simp: getImprovedPrompts_def interpolate_def bindM_def try_catch_def call_def
           return_def throw_def parse_def split: option.splits)
    with u have "array_of env r = None" by simp
    with a True show ?thesis
      by (cases r)
         (simp_all add: getImprovedPrompts_def interpolate_def array_of_def try_catch_def
           bindM_def call_def return_def throw_def parse_def or_else_def split: option.splits)
  qed
qed

lemma improve_step_unparsed:
  assumes c: "c \<in> set (calls (snd (improve_step env prompt failed s)))"
    and u: "proposals_unparsed env c"
    and q: "filter optimizer_call (calls s) = []"
  shows "fst (improve_step env prompt failed s) = Inr (JArr [])"
proof (cases "failed = []")
  case True
  with c not_among [OF q u] show ?thesis
    by (simp add: improve_step_def bindM_sendLog text_converts_def return_def)
next
  case False
  let ?s = "s\<lparr>logs := logs s @ [\<lparr>phase = ''Analyzing failures'', status = Running,
     details = Some [S (show_nat (length failed)),
                     S '' test(s) failed - generating improvements'']\<rparr>]\<rparr>"
  obtain g s1 where g: "getImprovedPrompts env prompt failed ?s = (g, s1)"
    by (cases "getImprovedPrompts env prompt failed ?s")
  have st: "improve_step env prompt failed s =
      bindM (getImprovedPrompts env prompt failed) (\<lambda>improved.
        bindM (lift (get_length (Some improved))) (\<lambda>k.
        bindM (sendLog ''Improvement suggestions ready'' Completed
                 (Some [S ''Generated '', V k, S '' improved prompt versions''])) (\<lambda>_.
        return improved))) ?s"
    using False by (simp add: improve_step_def bindM_sendLog text_converts_def)
  have cs: "calls (snd (improve_step env prompt failed s)) = calls s1"
    unfolding st using g
    by (cases g)
       (auto simp: bindM_def lift_def sendLog_def return_def split: sum.splits prod.splits)
  from c cs g have "c \<in> set (calls (snd (getImprovedPrompts env prompt failed ?s)))" by simp
  from getImprovedPrompts_unparsed [OF this u] q g have "g = Inr (JArr [])" by simp
  with g show ?thesis
    unfolding st
    by (simp add: bindM_def lift_def sendLog_def text_converts_def converts_def return_def)
qed

lemma one_shot_run_completes:
  assumes c: "c \<in> set (calls (snd (evaluation_handler env prompt (initial w))))"
    and u: "proposals_unparsed env c"
  shows "proposals (last (POST_evaluation env prompt w)) = Some (JArr [])
         \<and> filter is_error (POST_evaluation env prompt w) = []"
proof (cases "prompt \<noteq> [] \<and> GEMINI_API_KEY env")
  case False
  from evaluation_handler_invalid [OF False, of "initial w"] c show ?thesis
    by (auto simp: initial_def)
next
  case True
  then have v: "prompt \<noteq> []" "GEMINI_API_KEY env" by simp_all
  obtain r s where steps: "evaluation_steps env prompt (initial w) = (r, s)"
    by (cases "evaluation_steps env prompt (initial w)")
  have cs: "c \<in> set (calls s)"
  proof (cases r)
    case (Inl e)
    with steps evaluation_handler_caught [OF v, of "initial w" e s] c show ?thesis by auto
  next
    case (Inr ev)
    with steps evaluation_handler_returned [OF v, of "initial w" ev s] c show ?thesis by simp
  qed
  obtain g s1 where 1: "generate_step env prompt (initial w) = (g, s1)"
    by (cases "generate_step env prompt (initial w)")
  from quiet_filter [OF quiet_generate_step 1]
  have q1: "filter optimizer_call (calls s1) = []" by (simp add: initial_def)
  show ?thesis
  proof (cases g)
    case (Inl e)
    with 1 steps have "s = s1" by (simp add: evaluation_steps_def bindM_def)
    with cs not_among [OF q1 u] show ?thesis by simp
  next
    case g: (Inr testCases)
    obtain x s2 where 2: "evaluate_step env prompt testCases s1 = (x, s2)"
      by (cases "evaluate_step env prompt testCases s1")
    from quiet_filter [OF quiet_evaluate_step 2] q1
    have q2: "filter optimizer_call (calls s2) = []" by simp
    show ?thesis
    proof (cases x)
      case (Inl e)
      with 1 g 2 steps have "s = s2" by (simp add: evaluation_steps_def bindM_def)
      with cs not_among [OF q2 u] show ?thesis by simp
    next
      case x: (Inr results)
      obtain i s3 where 3: "improve_step env prompt (failing results) s2 = (i, s3)"
        by (cases "improve_step env prompt (failing results) s2")
      have "calls s = calls s3"
        using 1 g 2 x 3 steps
        by (cases i; cases "slice3 (projr i)")
           (auto simp: evaluation_steps_def bindM_def Let_def sendLog_def text_converts_def
             lift_def get_logs_def return_def)
      with cs 3 have "c \<in> set (calls (snd (improve_step env prompt (failing results) s2)))"
        by simp
      from improve_step_unparsed [OF this u q2] 3 have i: "i = Inr (JArr [])" by simp
      from 1 g 2 x 3 i steps obtain e where
        "r = Inr (Complete_evaluation e)" and "improvedPrompts e = JArr []"
        by (auto simp: evaluation_steps_def bindM_def Let_def sendLog_def text_converts_def
             lift_def get_logs_def return_def)
      with steps evaluation_handler_returned [OF v, of "initial w" "Complete_evaluation e" s]
      show ?thesis
        by (simp add: POST_evaluation_def stream_of_def)
    qed
  qed
qed

text \<open>
  C7, as the code has it. In the end-to-end pipeline an Optimizer answer from
  which no JSON object is parsed ends the run: the stream has no \<^verbatim>\<open>complete\<close>
  record and its last record is an \<^verbatim>\<open>error\<close>; an answer without any braced
  part makes \<^verbatim>\<open>generateOptimizedPrompt\<close> throw \<^verbatim>\<open>Failed to generate optimization\<close>.
  In the one-shot variant \<^verbatim>\<open>getImprovedPrompts\<close> returns the empty list when
  no JSON array is parsed from the answer (it has asked the Optimizer when the
  expected answers of the failed tests have a string; otherwise it throws
  while it builds its prompt), and a run in which the Optimizer has given
  such an answer completes: its last record is the \<^verbatim>\<open>complete\<close> record, with
  an empty list of proposals, and the stream has no \<^verbatim>\<open>error\<close> record.
\<close>

theorem optimizer_parse_failure:
  "(c \<in> set (calls (snd (optimize_handler env prompt goal name rubric now (initial w)))) \<longrightarrow>
    optimizer_unparsed env c \<longrightarrow>
    filter is_complete (POST_optimize env prompt goal name rubric now w) = []
    \<and> is_error (last (POST_optimize env prompt goal name rubric now w)))
   \<and> (failureAnalysis failed = Inr analysis \<longrightarrow>
      anthropic env1 (Optimize p1 g1 criteria analysis) (world s1) = (r1, w1) \<longrightarrow>
      r1 \<noteq> Throws \<longrightarrow>
      match_object (reply_text r1 ''{}'') = None \<longrightarrow>
      fst (generateOptimizedPrompt env1 p1 failed g1 (Some criteria) s1)
        = Inl (Error ''Failed to generate optimization''))
   \<and> (anthropic env2 (Improve p2 failed2) (world s2) = (r2, w2) \<longrightarrow>
      array_of env2 r2 = None \<longrightarrow>
      fst (getImprovedPrompts env2 p2 failed2 s2) =
        (if list_all converts (map e_expected failed2) then Inr (JArr []) else Inl TypeError))
   \<and> (c3 \<in> set (calls (snd (evaluation_handler env3 p3 (initial w3)))) \<longrightarrow>
      proposals_unparsed env3 c3 \<longrightarrow>
      proposals (last (POST_evaluation env3 p3 w3)) = Some (JArr [])
      \<and> filter is_error (POST_evaluation env3 p3 w3) = [])"
proof (intro conjI impI)
  assume c: "c \<in> set (calls (snd (optimize_handler env prompt goal name rubric now (initial w))))"
    and bad: "optimizer_unparsed env c"
  have "fatal (optimizer_unparsed env) (optimize_steps env prompt goal name rubric now)"
    by (intro fatal_optimize_steps fatal_generateOptimizedPrompt quiet_fatal
        quiet_executePromptWithGemini) simp_all
  from optimize_handler_fatal [OF this c bad]
  show "filter is_complete (POST_optimize env prompt goal name rubric now w) = []"
    and "is_error (last (POST_optimize env prompt goal name rubric now w))"
    by simp_all
next
  assume "failureAnalysis failed = Inr analysis"
    and "anthropic env1 (Optimize p1 g1 criteria analysis) (world s1) = (r1, w1)"
    and "r1 \<noteq> Throws"
    and "match_object (reply_text r1 ''{}'') = None"
  then show "fst (generateOptimizedPrompt env1 p1 failed g1 (Some criteria) s1)
      = Inl (Error ''Failed to generate optimization'')"
    by (rule generateOptimizedPrompt_no_object)
next
  assume "anthropic env2 (Improve p2 failed2) (world s2) = (r2, w2)"
    and "array_of env2 r2 = None"
  then show "fst (getImprovedPrompts env2 p2 failed2 s2) =
      (if list_all converts (map e_expected failed2) then Inr (JArr []) else Inl TypeError)"
    by (rule getImprovedPrompts_defaults)
next
  assume "c3 \<in> set (calls (snd (evaluation_handler env3 p3 (initial w3))))"
    and "proposals_unparsed env3 c3"
  from one_shot_run_completes [OF this]
  show "proposals (last (POST_evaluation env3 p3 w3)) = Some (JArr [])"
    and "filter is_error (POST_evaluation env3 p3 w3) = []"
    by simp_all
qed

theorem optimizer_parse_failure_witness:
  "(Anthropic, Optimize ''Answer: {{input}}'' ''answer'' [''must state 4''] [wrong_answer_analysis],
      Text ''I would rewrite the prompt.'')
     \<in> set (calls (snd (optimize_handler mute_optimizer ''Answer: {{input}}'' ''answer'' ''demo''
                (Some [''must state 4'']) 0 (initial ()))))
   \<and> optimizer_unparsed mute_optimizer
        (Anthropic, Optimize ''Answer: {{input}}'' ''answer'' [''must state 4''] [wrong_answer_analysis],
         Text ''I would rewrite the prompt.'')
   \<and> filter is_complete (POST_optimize mute_optimizer ''Answer: {{input}}'' ''answer'' ''demo''
        (Some [''must state 4'']) 0 ()) = []
   \<and> is_error (last (POST_optimize mute_optimizer ''Answer: {{input}}'' ''answer'' ''demo''
        (Some [''must state 4'']) 0 ()))
   \<and> failureAnalysis [wrong_answer] = Inr [wrong_answer_analysis]
   \<and> anthropic mute_optimizer
        (Optimize ''Answer: {{input}}'' ''answer'' [''must state 4''] [wrong_answer_analysis])
        (world (initial ())) = (Text ''I would rewrite the prompt.'', ())
   \<and> Text ''I would rewrite the prompt.'' \<noteq> Throws
   \<and> match_object (reply_text (Text ''I would rewrite the prompt.'') ''{}'') = None
   \<and> fst (generateOptimizedPrompt mute_optimizer ''Answer: {{input}}'' [wrong_answer] ''answer''
        (Some [''must state 4'']) (initial ())) = Inl (Error ''Failed to generate optimization'')
   \<and> anthropic mute_optimizer (Improve ''Answer: {{input}}'' [result_with 0]) (world (initial ()))
        = (Text ''I have no suggestions.'', ())
   \<and> array_of mute_optimizer (Text ''I have no suggestions.'') = None
   \<and> list_all converts (map e_expected [result_with 0])
   \<and> fst (getImprovedPrompts mute_optimizer ''Answer: {{input}}'' [result_with 0] (initial ()))
        = Inr (JArr [])
   \<and> (Anthropic, Improve ''Answer: {{input}}'' [half_right], Text ''I have no suggestions.'')
        \<in> set (calls (snd (evaluation_handler mute_optimizer ''Answer: {{input}}'' (initial ()))))
   \<and> proposals_unparsed mute_optimizer
        (Anthropic, Improve ''Answer: {{input}}'' [half_right], Text ''I have no suggestions.'')
   \<and> proposals (last (POST_evaluation mute_optimizer ''Answer: {{input}}'' ())) = Some (JArr [])
   \<and> filter is_error (POST_evaluation mute_optimizer ''Answer: {{input}}'' ()) = []"
  using optimizer_parse_failure
    [of "(Anthropic, Optimize ''Answer: {{input}}'' ''answer'' [''must state 4'']
            [wrong_answer_analysis], Text ''I would rewrite the prompt.'')"
        mute_optimizer "''Answer: {{input}}''" "''answer''" "''demo''" "Some [''must state 4'']" 0 "()"
        "[wrong_answer]" "[wrong_answer_analysis]"
        mute_optimizer "''Answer: {{input}}''" "''answer''" "[''must state 4'']" "initial ()"
        "Text ''I would rewrite the prompt.''" "()"
        mute_optimizer "''Answer: {{input}}''" "[result_with 0]" "initial ()"
        "Text ''I have no suggestions.''" "()"
        "(Anthropic, Improve ''Answer: {{input}}'' [half_right], Text ''I have no suggestions.'')"
        mute_optimizer "''Answer: {{input}}''" "()"]
  by (simp add: run_simps eval_simps scenario_simps mute_optimizer_def wrong_answer_def
      wrong_answer_analysis_def analyse_def generateOptimizedPrompt_def object_of_def
      array_of_def result_with_def half_right_def)

text \<open>The claim as the specification states it fails in the one-shot variant:
  a test fails, the Optimizer answers without a JSON array, and the run
  completes without an \<^verbatim>\<open>error\<close> record, with an empty list of proposals.\<close>

theorem optimizer_default_counterexample:
  "failing [result_with (1 / 2)] = [result_with (1 / 2)]
   \<and> fst (getImprovedPrompts mute_optimizer ''Answer: {{input}}'' [result_with (1 / 2)]
        (initial ())) = Inr (JArr [])
   \<and> proposals (last (POST_evaluation mute_optimizer ''Answer: {{input}}'' ())) = Some (JArr [])
   \<and> filter is_error (POST_evaluation mute_optimizer ''Answer: {{input}}'' ()) = []
   \<and> filter optimizer_call (calls (snd (evaluation_handler mute_optimizer ''Answer: {{input}}''
        (initial ())))) =
      [(Anthropic,
        Improve ''Answer: {{input}}''
          [\<lparr>e_input = ''2+2?'', e_output = ''5'', e_expected = Some (JStr ''4''),
            e_scores = \<lparr>factuality = 0, battle = 0, jsonValidity = 1, tone = 1,
                         overall = 1 / 2\<rparr>,
            e_metadata = None\<rparr>],
        Text ''I have no suggestions.'')]"
  by (simp add: eval_simps scenario_simps mute_optimizer_def result_with_def)
end
